theory Spec2Isabelle
  imports Main "HOL-Library.FuncSet" "HOL-Library.Multiset"
begin

section \<open>Data model\<close>

text \<open>
  The server is \<^verbatim>\<open>server/src/pokerGame.ts\<close>. Its type declarations
  (\<^verbatim>\<open>./types\<close>) and its constants (\<^verbatim>\<open>./constants\<close>) are not part of the
  sources at hand.

  Modelled from the spec: the declarations of \<^verbatim>\<open>./types\<close> (PlayStatus, PlayerStatus,
  GameStatus, Player, Room). The fields are the ones \<^verbatim>\<open>pokerGame.ts\<close> reads and writes,
  with the meaning the data model of the spec gives them. Field names are the source's;
  where two objects share a key the model prefixes it: \<open>p_id\<close>, \<open>p_name\<close> (Player),
  \<open>r_id\<close>, \<open>r_name\<close> (Room), \<open>deck\<close> (the two hole cards of a PlayerStatus) and
  \<open>board\<close> (the key \<^verbatim>\<open>deck\<close> of a GameStatus: the revealed community cards).

  Chip amounts are JavaScript numbers, that is IEEE-754 doubles. The model holds them as
  \<open>int\<close>: a double holds every whole number up to \<open>2 ^ 53\<close> in magnitude, and on such
  numbers its sums and differences are the integer ones as long as the result stays in that
  range. The functions that compute with chip amounts (\<open>startNewRound\<close>, \<open>dealCards\<close>,
  \<open>checkWinning\<close> and the CALL, RAISE and ALLIN branches of \<open>updateGameStatus\<close>) are
  guarded accordingly (see \<open>exact\<close> below): outside that range, or on an amount that is
  no whole number, they yield \<open>Inexact\<close>, so that the model never gives an integer where
  the source would hold a rounded number. Seat indices and counters are \<open>nat\<close>. A card
  slot holds \<open>Some c\<close> for the card id \<open>c\<close>, or \<open>None\<close> for \<^verbatim>\<open>undefined\<close>, which is
  what reading an array out of range yields in JavaScript.
\<close>

datatype PlayStatus = NONE | CALL | RAISE | CHECK | FOLD | ALLIN | BUST

datatype error = TypeError | Inexact

type_synonym Cards = "nat option list"

text \<open>
  The redaction functions delete keys from the objects they copy, so their results lack
  keys the declared types require (the source casts them back). The records are therefore
  parametric in the type of the two keys that can be deleted: \<open>'d\<close> for
  \<^verbatim>\<open>playerStatus.deck\<close> and \<open>'p\<close> for \<^verbatim>\<open>room.players\<close>. The server state
  instantiates them with the declared types (\<open>RoomS\<close>); what is sent to clients makes both
  optional (\<open>RoomV\<close>).
\<close>

record 'd PlayerStatus =
  totalBetAmout :: int
  subTotalBetAmount :: int
  status :: PlayStatus
  deck :: 'd
  winAmount :: int
  handType :: "string option"

record 'd Player =
  p_id :: string
  p_name :: string
  balance :: int
  roomId :: "string option"
  playerStatus :: "'d PlayerStatus option"

record GameStatus =
  round :: nat
  roundFinished :: bool
  currentBetAmount :: int
  pot :: int
  blindTurn :: nat
  playTurn :: nat
  board :: Cards
  cards :: "nat list option"
  timestamp :: int

record ('d, 'p) Room =
  r_id :: string
  r_name :: string
  creator :: "'d Player"
  started :: bool
  numberOfPlayers :: nat
  players :: 'p
  gameStatus :: "GameStatus option"

type_synonym PlayerS = "Cards Player"
type_synonym RoomS = "(Cards, Cards Player list) Room"
type_synonym PlayerV = "Cards option Player"
type_synonym RoomV = "(Cards option, Cards option Player list option) Room"

text \<open>The objects as they are handed to \<^verbatim>\<open>socket.emit\<close>: every key present.\<close>

definition viewStatus :: "Cards PlayerStatus \<Rightarrow> Cards option PlayerStatus" where
  "viewStatus st =
     \<lparr> totalBetAmout = totalBetAmout st, subTotalBetAmount = subTotalBetAmount st,
       status = status st, deck = Some (deck st), winAmount = winAmount st,
       handType = handType st \<rparr>"

definition viewPlayer :: "PlayerS \<Rightarrow> PlayerV" where
  "viewPlayer p =
     \<lparr> p_id = p_id p, p_name = p_name p, balance = balance p, roomId = roomId p,
       playerStatus = map_option viewStatus (playerStatus p) \<rparr>"

definition viewRoom :: "RoomS \<Rightarrow> RoomV" where
  "viewRoom r =
     \<lparr> r_id = r_id r, r_name = r_name r, creator = viewPlayer (creator r),
       started = started r, numberOfPlayers = numberOfPlayers r,
       players = Some (map viewPlayer (players r)), gameStatus = gameStatus r \<rparr>"

section \<open>Redaction\<close>

text \<open>
  \<^verbatim>\<open>
  function cutPlayers(room: Room): Room {
      const { players, ...rest } = room;
      return { ...rest } as Room;
  }
  function cutGameStatus(room: Room): Room {
      const { gameStatus, ...rest } = room;
      return { ...rest };
  }
  \<close>
\<close>

definition cutPlayers :: "RoomV \<Rightarrow> RoomV" where
  "cutPlayers room = room\<lparr>players := None\<rparr>"

definition cutGameStatus :: "RoomV \<Rightarrow> RoomV" where
  "cutGameStatus room = room\<lparr>gameStatus := None\<rparr>"

text \<open>
  \<^verbatim>\<open>
  function cutPlayersCards(room: Room): Room {
      const { players, ...rest } = room;
      return {
          ...rest,
          players: players.map(player => {
              const { playerStatus, ...rest } = player;
              if (!playerStatus) return player;
              const { deck, ...restStatus } = playerStatus;
              return { playerStatus: { ...restStatus }, ...rest } as Player;
          })
      }
  }
  \<close>
  On an object without the key \<^verbatim>\<open>players\<close> the call \<^verbatim>\<open>players.map\<close> throws.
\<close>

definition cutPlayerCards :: "PlayerV \<Rightarrow> PlayerV" where
  "cutPlayerCards player =
     (case playerStatus player of
        None \<Rightarrow> player
      | Some st \<Rightarrow> player\<lparr>playerStatus := Some (st\<lparr>deck := None\<rparr>)\<rparr>)"

definition cutPlayersCards :: "RoomV \<Rightarrow> error + RoomV" where
  "cutPlayersCards room =
     (case players room of
        None \<Rightarrow> Inl TypeError
      | Some ps \<Rightarrow> Inr (room\<lparr>players := Some (map cutPlayerCards ps)\<rparr>))"

text \<open>
  \<^verbatim>\<open>
  function cutRoomCards(room: Room): Room {
      const { gameStatus, ...rest } = room;
      if (!gameStatus?.cards) return room;
      const { cards, ...restStatus } = gameStatus;
      return { gameStatus: { ...restStatus }, ...rest };
  }
  \<close>
  An array is truthy even when empty, so the test only asks whether the key is there.
\<close>

definition cutRoomCards :: "RoomV \<Rightarrow> RoomV" where
  "cutRoomCards room =
     (case gameStatus room of
        None \<Rightarrow> room
      | Some gs \<Rightarrow>
          (case cards gs of
             None \<Rightarrow> room
           | Some cs \<Rightarrow> room\<lparr>gameStatus := Some (gs\<lparr>cards := None\<rparr>)\<rparr>))"

text \<open>Applying a second projection to the result of a first one that may have thrown.\<close>

definition andThen :: "error + 'a \<Rightarrow> ('a \<Rightarrow> error + 'b) \<Rightarrow> error + 'b" where
  "andThen m f = (case m of Inl e \<Rightarrow> Inl e | Inr x \<Rightarrow> f x)"

section \<open>Results of calls, array reads\<close>

text \<open>
  A call of the server either returns, throws (the only exception the modelled code can
  raise is the TypeError of reading a property of \<^verbatim>\<open>undefined\<close>), or runs forever in one
  of its \<^verbatim>\<open>while\<close> loops. \<open>Some (Inr x)\<close> is a return of \<open>x\<close>, \<open>Some (Inl TypeError)\<close>
  a throw, \<open>None\<close> a call that never returns.

  \<open>Inexact\<close> is no exception of the source. It marks a call in which the source computes
  a chip amount that is not a whole number of magnitude at most \<open>2 ^ 53\<close>: the source
  goes on with the double it has, rounded or fractional, which no integer of the model
  stands for, and the model stops there and says nothing about the state after the call.
\<close>

type_synonym 'a result = "(error + 'a) option"

definition bindR :: "'a result \<Rightarrow> ('a \<Rightarrow> 'b result) \<Rightarrow> 'b result" where
  "bindR m f =
     (case m of None \<Rightarrow> None | Some (Inl e) \<Rightarrow> Some (Inl e) | Some (Inr x) \<Rightarrow> f x)"

text \<open>
  The whole numbers on which the arithmetic of a double is that of the integers, the rooms
  all of whose chip amounts are such numbers, and the guard of a computation: \<open>guarded ok r\<close>
  is \<open>r\<close> when the numbers computed on the way to \<open>r\<close> are exact.
\<close>

definition exact :: "int \<Rightarrow> bool" where
  "exact x \<longleftrightarrow> - 9007199254740992 \<le> x \<and> x \<le> 9007199254740992"

definition exactPlayer :: "PlayerS \<Rightarrow> bool" where
  "exactPlayer player \<longleftrightarrow>
     exact (balance player)
     \<and> (case playerStatus player of
          None \<Rightarrow> True
        | Some st \<Rightarrow>
            exact (totalBetAmout st) \<and> exact (subTotalBetAmount st) \<and> exact (winAmount st))"

definition exactRoom :: "RoomS \<Rightarrow> bool" where
  "exactRoom room \<longleftrightarrow>
     list_all exactPlayer (players room)
     \<and> (case gameStatus room of
          None \<Rightarrow> True
        | Some gs \<Rightarrow> exact (currentBetAmount gs) \<and> exact (pot gs))"

definition guarded :: "bool \<Rightarrow> 'a result \<Rightarrow> 'a result" where
  "guarded ok r = (if ok then r else Some (Inl Inexact))"

text \<open>\<^verbatim>\<open>xs[i]\<close>: the element, or \<^verbatim>\<open>undefined\<close> out of range.\<close>

definition jsGet :: "'a list \<Rightarrow> nat \<Rightarrow> 'a option" where
  "jsGet xs i = (if i < length xs then Some (xs ! i) else None)"

text \<open>\<^verbatim>\<open>xs.indexOf(x)\<close>: the first position of \<open>x\<close>; \<open>None\<close> stands for \<open>-1\<close>.\<close>

fun indexOf :: "'a list \<Rightarrow> 'a \<Rightarrow> nat option" where
  "indexOf [] x = None"
| "indexOf (y # ys) x = (if y = x then Some 0 else map_option Suc (indexOf ys x))"

text \<open>\<^verbatim>\<open>xs[xs.indexOf(x)]\<close>, which is \<^verbatim>\<open>xs[-1]\<close>, hence \<^verbatim>\<open>undefined\<close>, when \<open>x\<close> is absent.\<close>

definition atIndex :: "'a list \<Rightarrow> nat option \<Rightarrow> 'a option" where
  "atIndex xs i = (case i of None \<Rightarrow> None | Some k \<Rightarrow> jsGet xs k)"

section \<open>The deck\<close>

text \<open>
  \<^verbatim>\<open>
  function rand(limit: number) {
      return Math.floor(Math.random() * limit)
  }
  \<close>
  \<^verbatim>\<open>Math.random\<close> is external. A run of the server is modelled relative to the
  sequence of its draws: \<open>rnd k\<close> is a natural number standing for the \<open>k\<close>-th draw, and
  \<open>rand limit u\<close> is the integer in \<open>0 ..< limit\<close> that the draw \<open>u\<close> selects (\<open>0\<close> when
  \<open>limit\<close> is \<open>0\<close>, as \<^verbatim>\<open>Math.floor(r * 0)\<close> is).
\<close>

definition rand :: "nat \<Rightarrow> nat \<Rightarrow> nat" where
  "rand limit u = (if limit = 0 then 0 else u mod limit)"

text \<open>
  \<^verbatim>\<open>
  const cards: number[] = [];
  for (let i = 0; i < 52; i++) cards[i] = i;

  function shuffleCards(cards: number[]) {
      const newCards = [...cards];
      for (let i = 0; i < 1000; i++) {
          let location1 = rand(cards.length);
          let location2 = rand(cards.length);
          let tmp = newCards[location1];
          newCards[location1] = newCards[location2];
          newCards[location2] = tmp;
      }
      return newCards;
  }
  \<close>
  Iteration \<open>i\<close> consumes the draws \<open>2 * i\<close> and \<open>2 * i + 1\<close>. The function is only ever
  called on the 52 card ids; the model is the source's for every non-empty array (on
  an empty one JavaScript would store \<^verbatim>\<open>undefined\<close> at index 0).
\<close>

definition allCards :: "nat list" where
  "allCards = [0 ..< 52]"

definition shuffleStep :: "nat \<Rightarrow> (nat \<Rightarrow> nat) \<Rightarrow> nat \<Rightarrow> nat list \<Rightarrow> nat list" where
  "shuffleStep len rnd i newCards =
     (let location1 = rand len (rnd (2 * i));
          location2 = rand len (rnd (2 * i + 1));
          tmp = newCards ! location1
      in (newCards[location1 := newCards ! location2])[location2 := tmp])"

definition shuffleCards :: "nat list \<Rightarrow> (nat \<Rightarrow> nat) \<Rightarrow> nat list" where
  "shuffleCards cs rnd = fold (shuffleStep (length cs) rnd) [0 ..< 1000] cs"

text \<open>
  What "uniformly random" means for \<open>shuffleCards\<close>. One call reads 2000 draws, each
  selecting a position in \<open>0 ..< 52\<close>; a uniform source makes every such sequence of
  draws equally likely, so an ordering \<open>p\<close> of the cards has a probability proportional
  to the number of sequences that produce it.
\<close>

definition draws :: "(nat \<Rightarrow> nat) set" where
  "draws = (\<Pi>\<^sub>E i \<in> {0 ..< 2000}. {0 ..< 52})"

definition orderings :: "nat list set" where
  "orderings = {p. mset p = mset allCards}"

definition drawsGiving :: "nat list \<Rightarrow> (nat \<Rightarrow> nat) set" where
  "drawsGiving p = {rnd \<in> draws. shuffleCards allCards rnd = p}"

section \<open>Turn order\<close>

text \<open>
  \<^verbatim>\<open>
  const nextTurn = (room: Room, turn?: number) => {
      const { gameStatus } = room;
      if (!gameStatus) return 0;
      if (!turn) turn = gameStatus.playTurn;
      while (true) {
          turn = (turn + 1) % room.numberOfPlayers;
          const player = room.players[turn];
          const { playerStatus } = player;
          if (!playerStatus) break;
          if (playerStatus.status !== PlayStatus.FOLD && playerStatus.status !== PlayStatus.BUST
              && playerStatus.status !== PlayStatus.ALLIN) break;
      }
      return turn;
  }
  \<close>
  \<^verbatim>\<open>!turn\<close> holds for a missing argument and for the seat \<open>0\<close> alike. With no seat
  (\<^verbatim>\<open>numberOfPlayers\<close> is 0) the remainder is \<^verbatim>\<open>NaN\<close>; reading \<^verbatim>\<open>room.players\<close> at
  \<^verbatim>\<open>NaN\<close> or beyond its length gives \<^verbatim>\<open>undefined\<close>, and destructuring that throws.
\<close>

definition startTurn :: "GameStatus \<Rightarrow> nat option \<Rightarrow> nat" where
  "startTurn gs turn =
     (case turn of None \<Rightarrow> playTurn gs | Some t \<Rightarrow> if t = 0 then playTurn gs else t)"

partial_function (option) nextTurnLoop :: "RoomS \<Rightarrow> nat \<Rightarrow> nat result" where
  "nextTurnLoop room turn =
     (if numberOfPlayers room = 0 then Some (Inl TypeError)
      else
        (case jsGet (players room) ((turn + 1) mod numberOfPlayers room) of
           None \<Rightarrow> Some (Inl TypeError)
         | Some player \<Rightarrow>
             (case playerStatus player of
                None \<Rightarrow> Some (Inr ((turn + 1) mod numberOfPlayers room))
              | Some st \<Rightarrow>
                  if status st \<noteq> FOLD \<and> status st \<noteq> BUST \<and> status st \<noteq> ALLIN
                  then Some (Inr ((turn + 1) mod numberOfPlayers room))
                  else nextTurnLoop room ((turn + 1) mod numberOfPlayers room))))"

definition nextTurn :: "RoomS \<Rightarrow> nat option \<Rightarrow> nat result" where
  "nextTurn room turn =
     (case gameStatus room of
        None \<Rightarrow> Some (Inr 0)
      | Some gs \<Rightarrow> nextTurnLoop room (startTurn gs turn))"

text \<open>
  \<^verbatim>\<open>
  const prevTurn = (room: Room, turn?: number) => {
      const { gameStatus } = room;
      if (!gameStatus) return 0;
      if (!turn) turn = gameStatus.playTurn;
      while (true) {
          turn = (turn - 1 + room.numberOfPlayers) % room.numberOfPlayers;
          const player = room.players[turn];
          const { playerStatus } = player;
          if (!playerStatus) break;
          if (playerStatus.status !== PlayStatus.FOLD && playerStatus.status !== PlayStatus.BUST
              && playerStatus.status !== PlayStatus.ALLIN) break;
      }
      return turn;
  }
  \<close>
  With at least one seat \<open>turn - 1 + numberOfPlayers\<close> is not negative, so on \<open>nat\<close> it is
  \<open>turn + numberOfPlayers - 1\<close>.
\<close>

partial_function (option) prevTurnLoop :: "RoomS \<Rightarrow> nat \<Rightarrow> nat result" where
  "prevTurnLoop room turn =
     (if numberOfPlayers room = 0 then Some (Inl TypeError)
      else
        (case jsGet (players room) ((turn + numberOfPlayers room - 1) mod numberOfPlayers room) of
           None \<Rightarrow> Some (Inl TypeError)
         | Some player \<Rightarrow>
             (case playerStatus player of
                None \<Rightarrow> Some (Inr ((turn + numberOfPlayers room - 1) mod numberOfPlayers room))
              | Some st \<Rightarrow>
                  if status st \<noteq> FOLD \<and> status st \<noteq> BUST \<and> status st \<noteq> ALLIN
                  then Some (Inr ((turn + numberOfPlayers room - 1) mod numberOfPlayers room))
                  else prevTurnLoop room
                         ((turn + numberOfPlayers room - 1) mod numberOfPlayers room))))"

definition prevTurn :: "RoomS \<Rightarrow> nat option \<Rightarrow> nat result" where
  "prevTurn room turn =
     (case gameStatus room of
        None \<Rightarrow> Some (Inr 0)
      | Some gs \<Rightarrow> prevTurnLoop room (startTurn gs turn))"

text \<open>
  A seat that the turn order does not skip. A seat without a \<^verbatim>\<open>playerStatus\<close> has no
  status at all, and the loops stop at it.
\<close>

definition eligible :: "RoomS \<Rightarrow> nat \<Rightarrow> bool" where
  "eligible room i =
     (case playerStatus (players room ! i) of
        None \<Rightarrow> True
      | Some st \<Rightarrow> status st \<noteq> FOLD \<and> status st \<noteq> BUST \<and> status st \<noteq> ALLIN)"

text \<open>The seat reached from \<open>turn\<close> by \<open>k\<close> steps of \<open>-1\<close> around \<open>n\<close> seats.\<close>

definition stepBack :: "nat \<Rightarrow> nat \<Rightarrow> nat \<Rightarrow> nat" where
  "stepBack n turn k = nat ((int turn - int k) mod int n)"

section \<open>Hands and showdown\<close>

text \<open>
  \<^verbatim>\<open>Hand.solve\<close> and \<^verbatim>\<open>Hand.winners\<close> belong to the library \<^verbatim>\<open>pokersolver\<close>, which is
  not part of the repository. A solved hand is modelled by its strength (a number: a
  stronger hand has a greater one, equal ones tie) and its name. \<open>solve\<close>, from the
  strings of up to seven cards to a hand, is a parameter of the model;
  \<^verbatim>\<open>Hand.winners\<close> keeps, in the order of its argument, the hands that no hand of the
  argument beats.
\<close>

record Hand =
  h_rank :: nat
  h_name :: string

type_synonym Solver = "string list \<Rightarrow> Hand"

text \<open>
  \<^verbatim>\<open>
  const cardString = (cardval: number) => {
      const suit = ["d", "c", "h", "s"][Math.floor(cardval / 13)];
      cardval %= 13;
      let val = `${cardval + 2}`;
      switch (cardval) {
          case 8: val = 'T'; break;
          case 9: val = 'J'; break;
          case 10: val = 'Q'; break;
          case 11: val = 'K'; break;
          case 12: val = 'A'; break;
      }
      return val + suit;
  }
  \<close>
  The remainder is below 13, so \<open>val\<close> is one character: the digit of \<open>cardval + 2\<close>
  up to 9, then the letters of the \<^verbatim>\<open>switch\<close>. A card id of 52 or more has no suit in
  the array, and \<^verbatim>\<open>undefined\<close> is appended as text; the card \<^verbatim>\<open>undefined\<close> itself
  gives \<^verbatim>\<open>NaN\<close> twice.
\<close>

definition cardString :: "nat option \<Rightarrow> string" where
  "cardString cardval =
     (case cardval of
        None \<Rightarrow> ''NaNundefined''
      | Some c \<Rightarrow>
          [''23456789TJQKA'' ! (c mod 13)] @
          (case jsGet [''d'', ''c'', ''h'', ''s''] (c div 13) of
             None \<Rightarrow> ''undefined''
           | Some suit \<Rightarrow> suit))"

text \<open>
  The settlement of \<^verbatim>\<open>checkWinning\<close>:
  \<^verbatim>\<open>
  const hands: any[] = [];
  const { gameStatus } = room;
  if (!gameStatus) return;
  room.players.forEach(player => {
      const { playerStatus } = player;
      if (playerStatus && playerStatus.status !== PlayStatus.BUST
              && playerStatus.status !== PlayStatus.FOLD) {
          const deck = [...playerStatus?.deck, ...gameStatus.deck];
          hands.push(Hand.solve(deck.map(cardval => cardString(cardval))));
      } else {
          hands.push(null);
      }
  });
  let subHands = hands.filter(hand => hand);
  while (gameStatus.pot) {
      if (!subHands.length) break;
      const winners = Hand.winners(subHands);
      subHands = subHands.filter(hand => !winners.includes(hand));
      winners.forEach((winner: any, index: number) => {
          const playerIndex = hands.indexOf(winner);
          const player = room.players[playerIndex];
          const { playerStatus } = player;
          if (playerStatus) {
              const totalBetAmout = playerStatus.totalBetAmout;
              let maxWinAmount = totalBetAmout;
              const remainingIndexes = subHands.map(hand => hands.indexOf(hand));
              room.players.forEach((player, index) => {
                  const { playerStatus } = player;
                  if (playerStatus && (remainingIndexes.includes(index)
                          || playerStatus.status === PlayStatus.BUST
                          || playerStatus.status === PlayStatus.FOLD)) {
                      maxWinAmount += Math.min(totalBetAmout, playerStatus.totalBetAmout);
                  }
              });
              const winAmount = Math.min(maxWinAmount,
                  Math.floor(gameStatus.pot / (winners.length - index)));
              playerStatus.winAmount += winAmount;
              gameStatus.pot -= winAmount;
              player.balance += winAmount;
              playerStatus.handType = winner.name;
          }
      });
  }
  gameStatus.roundFinished = true;
  \<close>
  The array \<open>hands\<close> has one entry per seat. A hand is an object, found again in
  \<open>hands\<close> by identity, so the model names a hand by its seat: \<open>subHands\<close>,
  \<open>winners\<close> and \<open>remainingIndexes\<close> are lists of seats. A winner is a seat of
  \<open>hands\<close>, so \<^verbatim>\<open>room.players[playerIndex]\<close> is never \<^verbatim>\<open>undefined\<close>; the model
  leaves the state as it is in that case.

  \<^verbatim>\<open>Math.floor(pot / k)\<close> is the integer quotient \<open>pot div k\<close> for a whole number
  \<open>pot\<close> of magnitude at most \<open>2 ^ 53\<close> and a count \<open>k\<close> of winners: the rounding of the
  quotient is smaller than its distance \<open>1 / k\<close> to the next whole number.
\<close>

definition handsOf :: "Solver \<Rightarrow> PlayerS list \<Rightarrow> GameStatus \<Rightarrow> Hand option list" where
  "handsOf solve ps gs =
     map (\<lambda>player.
            case playerStatus player of
              None \<Rightarrow> None
            | Some st \<Rightarrow>
                if status st \<noteq> BUST \<and> status st \<noteq> FOLD
                then Some (solve (map cardString (deck st @ board gs)))
                else None) ps"

definition strength :: "Hand option list \<Rightarrow> nat \<Rightarrow> nat" where
  "strength hands i = (case jsGet hands i of Some (Some h) \<Rightarrow> h_rank h | _ \<Rightarrow> 0)"

definition winnersOf :: "Hand option list \<Rightarrow> nat list \<Rightarrow> nat list" where
  "winnersOf hands subHands =
     filter (\<lambda>i. list_all (\<lambda>j. strength hands j \<le> strength hands i) subHands) subHands"

definition maxWin :: "nat list \<Rightarrow> PlayerS list \<Rightarrow> int \<Rightarrow> int" where
  "maxWin remainingIndexes ps totalBet =
     totalBet +
     sum_list (map (\<lambda>(index, player).
                      case playerStatus player of
                        None \<Rightarrow> 0
                      | Some st \<Rightarrow>
                          if index \<in> set remainingIndexes \<or> status st = BUST \<or> status st = FOLD
                          then min totalBet (totalBetAmout st)
                          else 0)
                   (enumerate 0 ps))"

definition payWinner ::
  "Hand option list \<Rightarrow> nat list \<Rightarrow> nat \<Rightarrow> nat \<times> nat \<Rightarrow>
   PlayerS list \<times> GameStatus \<Rightarrow> PlayerS list \<times> GameStatus" where
  "payWinner hands remainingIndexes nWinners iw s =
     (case (iw, s) of ((index, winner), (ps, gs)) \<Rightarrow>
        (case jsGet ps winner of
           None \<Rightarrow> (ps, gs)
         | Some player \<Rightarrow>
             (case playerStatus player of
                None \<Rightarrow> (ps, gs)
              | Some st \<Rightarrow>
                  (let maxWinAmount = maxWin remainingIndexes ps (totalBetAmout st);
                       win = min maxWinAmount (pot gs div int (nWinners - index))
                   in (ps[winner :=
                            player\<lparr>balance := balance player + win,
                                   playerStatus :=
                                     Some (st\<lparr>winAmount := winAmount st + win,
                                              handType :=
                                                (case jsGet hands winner of
                                                   Some (Some h) \<Rightarrow> Some (h_name h)
                                                 | _ \<Rightarrow> None)\<rparr>)\<rparr>],
                       gs\<lparr>pot := pot gs - win\<rparr>)))))"

definition payWinners ::
  "Hand option list \<Rightarrow> nat list \<Rightarrow> nat list \<Rightarrow>
   PlayerS list \<times> GameStatus \<Rightarrow> PlayerS list \<times> GameStatus" where
  "payWinners hands remainingIndexes winners s =
     fold (payWinner hands remainingIndexes (length winners)) (enumerate 0 winners) s"

lemma winnersOf_shrinks:
  assumes "subHands \<noteq> []"
  shows "length (filter (\<lambda>h. h \<notin> set (winnersOf hands subHands)) subHands) < length subHands"
proof -
  have "strength hands ` set subHands \<noteq> {}" "finite (strength hands ` set subHands)"
    using assms by simp_all
  then have "Max (strength hands ` set subHands) \<in> strength hands ` set subHands"
    by (rule_tac Max_in)
  then obtain w where w: "w \<in> set subHands"
    "strength hands w = Max (strength hands ` set subHands)" by auto
  have "\<forall>j\<in>set subHands. strength hands j \<le> strength hands w"
    using w(2) by simp
  then have "w \<in> set (winnersOf hands subHands)"
    using w(1) by (simp add: winnersOf_def list_all_iff)
  with w(1) show ?thesis
    by (intro length_filter_less [of w]) simp_all
qed

function settleLoop ::
  "Hand option list \<Rightarrow> nat list \<Rightarrow> PlayerS list \<times> GameStatus \<Rightarrow>
   PlayerS list \<times> GameStatus" where
  "settleLoop hands subHands s =
     (if pot (snd s) = 0 then s
      else if subHands = [] then s
      else settleLoop hands
             (filter (\<lambda>h. h \<notin> set (winnersOf hands subHands)) subHands)
             (payWinners hands
                (filter (\<lambda>h. h \<notin> set (winnersOf hands subHands)) subHands)
                (winnersOf hands subHands) s))"
  by pat_completeness auto
termination
  by (relation "measure (\<lambda>(hands, subHands, s). length subHands)")
     (simp_all add: winnersOf_shrinks)

declare settleLoop.simps [simp del]

text \<open>
  The numbers that the settlement computes, for the guard of \<open>checkWinning\<close>.
  \<open>winAddends\<close> are the amounts added to \<^verbatim>\<open>maxWinAmount\<close>, seat by seat (\<open>0\<close> for a
  seat that adds nothing); \<open>exactPay\<close> says that the payment of one winner computes exact
  numbers only: every value \<^verbatim>\<open>maxWinAmount\<close> takes, the pot that is divided, and the three
  numbers written back. \<open>exactPays\<close> and \<open>exactLoop\<close> follow \<open>payWinners\<close> and
  \<open>settleLoop\<close> through the states of the settlement.
\<close>

definition winAddends :: "nat list \<Rightarrow> PlayerS list \<Rightarrow> int \<Rightarrow> int list" where
  "winAddends remainingIndexes ps totalBet =
     map (\<lambda>(index, player).
            case playerStatus player of
              None \<Rightarrow> 0
            | Some st \<Rightarrow>
                if index \<in> set remainingIndexes \<or> status st = BUST \<or> status st = FOLD
                then min totalBet (totalBetAmout st)
                else 0)
       (enumerate 0 ps)"

definition exactPay :: "nat list \<Rightarrow> nat \<Rightarrow> nat \<times> nat \<Rightarrow> PlayerS list \<times> GameStatus \<Rightarrow> bool" where
  "exactPay remainingIndexes nWinners iw s =
     (case (iw, s) of ((index, winner), (ps, gs)) \<Rightarrow>
        (case jsGet ps winner of
           None \<Rightarrow> True
         | Some player \<Rightarrow>
             (case playerStatus player of
                None \<Rightarrow> True
              | Some st \<Rightarrow>
                  (let addends = winAddends remainingIndexes ps (totalBetAmout st);
                       maxWinAmount = maxWin remainingIndexes ps (totalBetAmout st);
                       win = min maxWinAmount (pot gs div int (nWinners - index))
                   in list_all (\<lambda>k. exact (totalBetAmout st + sum_list (take k addends)))
                        [0 ..< Suc (length addends)]
                      \<and> exact (pot gs)
                      \<and> exact (winAmount st + win)
                      \<and> exact (pot gs - win)
                      \<and> exact (balance player + win)))))"

fun exactPays ::
  "Hand option list \<Rightarrow> nat list \<Rightarrow> nat \<Rightarrow> (nat \<times> nat) list \<Rightarrow>
   PlayerS list \<times> GameStatus \<Rightarrow> bool" where
  "exactPays hands remainingIndexes nWinners [] s = True"
| "exactPays hands remainingIndexes nWinners (iw # rest) s =
     (exactPay remainingIndexes nWinners iw s
      \<and> exactPays hands remainingIndexes nWinners rest
          (payWinner hands remainingIndexes nWinners iw s))"

function exactLoop ::
  "Hand option list \<Rightarrow> nat list \<Rightarrow> PlayerS list \<times> GameStatus \<Rightarrow> bool" where
  "exactLoop hands subHands s =
     (if pot (snd s) = 0 then True
      else if subHands = [] then True
      else exactPays hands
             (filter (\<lambda>h. h \<notin> set (winnersOf hands subHands)) subHands)
             (length (winnersOf hands subHands))
             (enumerate 0 (winnersOf hands subHands)) s
           \<and> exactLoop hands
               (filter (\<lambda>h. h \<notin> set (winnersOf hands subHands)) subHands)
               (payWinners hands
                  (filter (\<lambda>h. h \<notin> set (winnersOf hands subHands)) subHands)
                  (winnersOf hands subHands) s))"
  by pat_completeness auto
termination
  by (relation "measure (\<lambda>(hands, subHands, s). length subHands)")
     (simp_all add: winnersOf_shrinks)

declare exactLoop.simps [simp del]

definition exactSettle :: "Solver \<Rightarrow> RoomS \<Rightarrow> GameStatus \<Rightarrow> bool" where
  "exactSettle solve room gs \<longleftrightarrow>
     exactRoom room
     \<and> exactLoop (handsOf solve (players room) gs)
         (filter (\<lambda>i. handsOf solve (players room) gs ! i \<noteq> None)
            [0 ..< length (handsOf solve (players room) gs)])
         (players room, gs)"

definition settle :: "Solver \<Rightarrow> RoomS \<Rightarrow> GameStatus \<Rightarrow> RoomS" where
  "settle solve room gs =
     (let hands = handsOf solve (players room) gs;
          subHands = filter (\<lambda>i. hands ! i \<noteq> None) [0 ..< length hands];
          s = settleLoop hands subHands (players room, gs)
      in room\<lparr>players := fst s, gameStatus := Some ((snd s)\<lparr>roundFinished := True\<rparr>)\<rparr>)"

text \<open>
  The configuration that the method \<^verbatim>\<open>test\<close> of the class builds and settles:
  \<^verbatim>\<open>
  const players: Player[] = [];
  const shuffledCards = shuffleCards(cards);
  const betAmounts = [20, 80, 50, 40];
  const folds = [false, false, true, false];
  let pot = 0;
  for (let i = 0; i < 4; i++) {
      pot += betAmounts[i];
      players.push({
          id: uuidV4(), name: `player ${i}`, balance: 1000,
          playerStatus: {
              totalBetAmout: betAmounts[i], subTotalBetAmount: 0,
              status: folds[i] ? PlayStatus.FOLD : PlayStatus.CALL,
              deck: shuffledCards.slice(i * 2, i * 2 + 2), winAmount: 0,
          }
      })
  };
  const room: Room = {
      id: uuidV4(), name: 'test', creator: players[0], started: true,
      numberOfPlayers: 4, players,
      gameStatus: { round: 0, roundFinished: false, currentBetAmount: 30, pot,
          blindTurn: 0, playTurn: 0, deck: shuffledCards.slice(-5), timestamp: 0 }
  }
  this.checkWinning(room);
  \<close>
  \<open>uuid k\<close> stands for the result of the \<open>k\<close>-th call of \<^verbatim>\<open>uuidV4\<close>.
\<close>

definition testPlayer :: "nat list \<Rightarrow> (nat \<Rightarrow> string) \<Rightarrow> nat \<Rightarrow> PlayerS" where
  "testPlayer shuffledCards uuid i =
     \<lparr> p_id = uuid i, p_name = ''player '' @ [''0123'' ! i], balance = 1000, roomId = None,
       playerStatus =
         Some \<lparr> totalBetAmout = [20, 80, 50, 40] ! i, subTotalBetAmount = 0,
                status = (if [False, False, True, False] ! i then FOLD else CALL),
                deck = map Some (take 2 (drop (i * 2) shuffledCards)),
                winAmount = 0, handType = None \<rparr> \<rparr>"

definition testStatus :: "nat list \<Rightarrow> GameStatus" where
  "testStatus shuffledCards =
     \<lparr> round = 0, roundFinished = False, currentBetAmount = 30, pot = 20 + 80 + 50 + 40,
       blindTurn = 0, playTurn = 0,
       board = map Some (drop (length shuffledCards - 5) shuffledCards),
       cards = None, timestamp = 0 \<rparr>"

definition testRoom :: "(nat \<Rightarrow> nat) \<Rightarrow> (nat \<Rightarrow> string) \<Rightarrow> RoomS" where
  "testRoom rnd uuid =
     \<lparr> r_id = uuid 4, r_name = ''test'',
       creator = testPlayer (shuffleCards allCards rnd) uuid 0, started = True,
       numberOfPlayers = 4,
       players = map (testPlayer (shuffleCards allCards rnd) uuid) [0, 1, 2, 3],
       gameStatus = Some (testStatus (shuffleCards allCards rnd)) \<rparr>"

text \<open>What a seat has won, and the strength of the hand a seat of the test room holds.\<close>

definition winOf :: "RoomS \<Rightarrow> nat \<Rightarrow> int" where
  "winOf room i =
     (case jsGet (players room) i of
        None \<Rightarrow> 0
      | Some player \<Rightarrow> (case playerStatus player of None \<Rightarrow> 0 | Some st \<Rightarrow> winAmount st))"

definition testRank :: "Solver \<Rightarrow> (nat \<Rightarrow> nat) \<Rightarrow> (nat \<Rightarrow> string) \<Rightarrow> nat \<Rightarrow> nat" where
  "testRank solve rnd uuid i =
     strength (handsOf solve (players (testRoom rnd uuid))
                 (testStatus (shuffleCards allCards rnd))) i"

text \<open>Balances, winnings and pot of a state of the settlement loop.\<close>

definition outcome :: "PlayerS list \<times> GameStatus \<Rightarrow> int list \<times> int list \<times> int" where
  "outcome s =
     (map balance (fst s),
      map (\<lambda>p. case playerStatus p of None \<Rightarrow> 0 | Some st \<Rightarrow> winAmount st) (fst s),
      pot (snd s))"


section \<open>The server object\<close>

text \<open>
  \<^verbatim>\<open>
  export default class PokerGame {
      private sockets: Socket[];
      private players: Player[];
      private rooms: Room[];
  \<close>
  A socket is modelled by its \<^verbatim>\<open>id\<close>. The key \<^verbatim>\<open>players\<close> of the class is the field
  \<open>gamePlayers\<close>. In JavaScript the Player objects of \<open>gamePlayers\<close> are the very
  objects seated in the rooms; in the model a room holds the current values of its seats,
  and \<open>gamePlayers\<close> is what the server reads of it: the \<^verbatim>\<open>id\<close> at each position, which
  leads from a socket to a player and back. The seats of one room are distinct objects
  (\<open>joinRoom\<close> refuses a player already seated), so a write to one seat leaves the others
  alone, as the list update of the model does. \<open>joinRoom\<close> seats the value that
  \<open>gamePlayers\<close> holds for the player; in a state from which a player joins a room, that
  value is the object as it stands at that moment, with the \<^verbatim>\<open>playerStatus\<close> of the last
  round it sat in, which the source never clears.

  What a call does beyond changing the state is returned as a list of effects, in order:
  \<open>Emit s e p\<close> for \<^verbatim>\<open>socket.emit(e, p)\<close> on the socket \<open>s\<close>, and \<open>SetTimeout c r\<close>
  for a \<^verbatim>\<open>setTimeout\<close> whose callback \<open>c\<close> closes over the room with id \<open>r\<close>. The
  current time (\<^verbatim>\<open>new Date().getTime()\<close>) is the parameter \<open>now\<close>.
\<close>

record PokerGame =
  sockets :: "string list"
  gamePlayers :: "PlayerS list"
  rooms :: "RoomS list"

datatype Payload = Payload RoomV "PlayerV option"

datatype Callback = RoundStartTimeout | TurnTimeout | NewRound

datatype Effect = Emit string string Payload | SetTimeout Callback string

text \<open>
  \<^verbatim>\<open>
  const index = getPlayerIndex(this.players, player.id);
  const socket = this.sockets[index];
  \<close>
\<close>

definition getPlayerIndex :: "PlayerS list \<Rightarrow> string \<Rightarrow> nat option" where
  "getPlayerIndex ps i = indexOf (map p_id ps) i"

definition getIndex :: "string list \<Rightarrow> string \<Rightarrow> nat option" where
  "getIndex ss i = indexOf ss i"

definition getRoom :: "RoomS list \<Rightarrow> string \<Rightarrow> RoomS option" where
  "getRoom rs i = atIndex rs (indexOf (map r_id rs) i)"

definition socketOf :: "PokerGame \<Rightarrow> PlayerS \<Rightarrow> string option" where
  "socketOf game player =
     atIndex (sockets game) (getPlayerIndex (gamePlayers game) (p_id player))"

text \<open>
  A run of \<^verbatim>\<open>socket.emit\<close> calls, one per entry; \<^verbatim>\<open>socket.emit\<close> on a socket that is
  \<^verbatim>\<open>undefined\<close> throws, and so does the call when computing its argument throws.
\<close>

fun emitAll :: "(string option \<times> string \<times> (error + Payload)) list \<Rightarrow> error + Effect list" where
  "emitAll [] = Inr []"
| "emitAll ((None, e, p) # rest) = Inl TypeError"
| "emitAll ((Some s, e, Inl err) # rest) = Inl err"
| "emitAll ((Some s, e, Inr p) # rest) =
     (case emitAll rest of Inl err \<Rightarrow> Inl err | Inr es \<Rightarrow> Inr (Emit s e p # es))"

text \<open>\<^verbatim>\<open>{ room: cutPlayersCards(cutRoomCards(room)), player }\<close>\<close>

definition redactedPayload :: "RoomS \<Rightarrow> PlayerS \<Rightarrow> error + Payload" where
  "redactedPayload room player =
     (case cutPlayersCards (cutRoomCards (viewRoom room)) of
        Inl e \<Rightarrow> Inl e
      | Inr v \<Rightarrow> Inr (Payload v (Some (viewPlayer player))))"

section \<open>Showdown, streets, rounds\<close>

text \<open>
  \<^verbatim>\<open>checkWinning\<close>, after the settlement above:
  \<^verbatim>\<open>
  room.players.forEach((player) => {
      const playerId = getPlayerIndex(this.players, player.id);
      const socket = this.sockets[playerId];
      socket.emit("updatedGameStatus", { room, player });
  });
  // start new round after 10 seconds
  setTimeout(() => { ... }, ROUND_WAIT_TIME);
  \<close>
  The settlement is guarded by \<open>exactSettle\<close>.
\<close>

definition checkWinning ::
  "PokerGame \<Rightarrow> Solver \<Rightarrow> RoomS \<Rightarrow> error + RoomS \<times> Effect list" where
  "checkWinning game solve room =
     (case gameStatus room of
        None \<Rightarrow> Inr (room, [])
      | Some gs \<Rightarrow>
          if \<not> exactSettle solve room gs then Inl Inexact
          else
          (let room' = settle solve room gs
           in case emitAll (map (\<lambda>player.
                       (socketOf game player, ''updatedGameStatus'',
                        Inr (Payload (viewRoom room') (Some (viewPlayer player)))))
                     (players room')) of
                Inl e \<Rightarrow> Inl e
              | Inr es \<Rightarrow> Inr (room', es @ [SetTimeout NewRound (r_id room')])))"

text \<open>
  \<^verbatim>\<open>
  dealCards = (room: Room) => {
      const { gameStatus } = room;
      if (!gameStatus || !gameStatus.cards) return false;
      room.players.forEach(player => {
          const { playerStatus } = player;
          if (playerStatus) {
              playerStatus.totalBetAmout += playerStatus.subTotalBetAmount;
              playerStatus.subTotalBetAmount = 0;
          }
          gameStatus.currentBetAmount = 0;
      })
      gameStatus.playTurn = nextTurn(room, gameStatus.blindTurn);
      if (gameStatus.deck.length === 5) {
          this.checkWinning(room);
          return true;
      }
      if (!gameStatus.deck.length) {
          for (let i = 0; i < 3; i++) {
              gameStatus.deck[i] = gameStatus.cards[51 - i];
          }
      } else {
          gameStatus.deck.push(gameStatus.cards[51 - gameStatus.deck.length]);
      }
      return false;
  }
  \<close>
  \<^verbatim>\<open>currentBetAmount\<close> is reset inside the loop over the seats, hence only when there is
  a seat. With more than 51 cards on the board the index \<open>51 - length\<close> is negative and the
  read gives \<^verbatim>\<open>undefined\<close>. The sums of the loop over the seats are guarded: the room
  holds exact numbers before and after it.
\<close>

definition foldBets :: "PlayerS \<Rightarrow> PlayerS" where
  "foldBets player =
     (case playerStatus player of
        None \<Rightarrow> player
      | Some st \<Rightarrow>
          player\<lparr>playerStatus :=
            Some (st\<lparr>totalBetAmout := totalBetAmout st + subTotalBetAmount st,
                     subTotalBetAmount := 0\<rparr>)\<rparr>)"

text \<open>The loop over the seats at the head of \<open>dealCards\<close>.\<close>

definition collectBets :: "RoomS \<Rightarrow> GameStatus \<Rightarrow> RoomS" where
  "collectBets room gs =
     room\<lparr>players := map foldBets (players room),
          gameStatus := Some (if players room = [] then gs else gs\<lparr>currentBetAmount := 0\<rparr>)\<rparr>"

definition setPlayTurn :: "nat \<Rightarrow> RoomS \<Rightarrow> RoomS" where
  "setPlayTurn t room =
     room\<lparr>gameStatus := map_option (\<lambda>g. g\<lparr>playTurn := t\<rparr>) (gameStatus room)\<rparr>"

definition reveal :: "nat list \<Rightarrow> Cards \<Rightarrow> Cards" where
  "reveal cs b =
     (if b = [] then [jsGet cs 51, jsGet cs 50, jsGet cs 49]
      else b @ [if length b \<le> 51 then jsGet cs (51 - length b) else None])"

text \<open>
  The rest of \<open>dealCards\<close>, from the assignment of the seat \<open>t\<close> that \<open>nextTurn\<close> has
  returned to \<^verbatim>\<open>playTurn\<close>: the showdown when the board has five cards, a reveal
  otherwise.
\<close>

definition dealStreet ::
  "PokerGame \<Rightarrow> Solver \<Rightarrow> nat list \<Rightarrow> RoomS \<Rightarrow> nat \<Rightarrow> (RoomS \<times> bool \<times> Effect list) result" where
  "dealStreet game solve cs room t =
     (case gameStatus room of
        None \<Rightarrow> Some (Inr (room, False, []))
      | Some gs \<Rightarrow>
          if length (board gs) = 5
          then (case checkWinning game solve (setPlayTurn t room) of
                  Inl e \<Rightarrow> Some (Inl e)
                | Inr (room', es) \<Rightarrow> Some (Inr (room', True, es)))
          else Some (Inr
                 (room\<lparr>gameStatus :=
                         Some (gs\<lparr>playTurn := t, board := reveal cs (board gs)\<rparr>)\<rparr>,
                  False, [])))"

definition dealCards ::
  "PokerGame \<Rightarrow> Solver \<Rightarrow> RoomS \<Rightarrow> (RoomS \<times> bool \<times> Effect list) result" where
  "dealCards game solve room =
     (case gameStatus room of
        None \<Rightarrow> Some (Inr (room, False, []))
      | Some gs \<Rightarrow>
          (case cards gs of
             None \<Rightarrow> Some (Inr (room, False, []))
           | Some cs \<Rightarrow>
               guarded (exactRoom room \<and> exactRoom (collectBets room gs))
                 (bindR (nextTurn (collectBets room gs) (Some (blindTurn gs)))
                    (dealStreet game solve cs (collectBets room gs)))))"

text \<open>\<^verbatim>\<open>while (!this.dealCards(room));\<close>\<close>

partial_function (option) dealCardsLoop ::
  "PokerGame \<Rightarrow> Solver \<Rightarrow> RoomS \<Rightarrow> Effect list \<Rightarrow> (RoomS \<times> Effect list) result" where
  "dealCardsLoop game solve room es =
     (case dealCards game solve room of
        None \<Rightarrow> None
      | Some (Inl e) \<Rightarrow> Some (Inl e)
      | Some (Inr (room', showdown, es')) \<Rightarrow>
          if showdown then Some (Inr (room', es @ es'))
          else dealCardsLoop game solve room' (es @ es'))"

text \<open>
  \<^verbatim>\<open>
  startNewRound = (room: Room) => {
      const shuffledCards = shuffleCards(cards);
      let blindTurn = rand(room.numberOfPlayers);
      if (room.gameStatus) {
          blindTurn = nextTurn(room, room.gameStatus.blindTurn);
      }
      const gameStatus: GameStatus = {
          round: 1, roundFinished: false, currentBetAmount: 0, pot: 0,
          blindTurn, playTurn: blindTurn, deck: [], cards: shuffledCards, timestamp: 0,
      };
      if (room.gameStatus) {
          gameStatus.round = room.gameStatus.round + 1;
      }
      room.gameStatus = gameStatus;
      room.players.forEach((player, index) => {
          const playerStatus: PlayerStatus = {
              totalBetAmout: 0, subTotalBetAmount: 0, status: PlayStatus.NONE,
              deck: [ shuffledCards[index * 2], shuffledCards[index * 2 + 1] ],
              winAmount: 0,
          };
          player.playerStatus = playerStatus;
      })
      room.players.forEach((player, index) => {
          const { playerStatus } = player;
          if (playerStatus && (index === blindTurn || index === prevTurn(room, blindTurn))) {
              let amount = index === blindTurn ? 10 : 5;
              if (gameStatus.currentBetAmount < amount) gameStatus.currentBetAmount = amount;
              if (player.balance >= amount) {
                  playerStatus.subTotalBetAmount = amount;
                  player.balance -= amount;
                  gameStatus.pot += amount;
              } else {
                  playerStatus.status = PlayStatus.BUST;
              }
          }
      });
      gameStatus.playTurn = nextTurn(room, blindTurn);
      gameStatus.timestamp = new Date().getTime();
      setTimeout(() => { ... }, PLAYER_WAIT_TIME);
  }
  \<close>
  The shuffle reads the draws \<open>0 .. 1999\<close>, the choice of the first blind the draw
  \<open>2000\<close>. \<^verbatim>\<open>prevTurn\<close> is called anew for every seat other than the blind, on the
  room as the seats before have left it. The blinds are guarded: the room holds exact
  numbers before and after they are posted (the pot only grows on the way).
\<close>

definition freshStatus :: "nat list \<Rightarrow> nat \<Rightarrow> Cards PlayerStatus" where
  "freshStatus shuffledCards index =
     \<lparr> totalBetAmout = 0, subTotalBetAmount = 0, status = NONE,
       deck = [jsGet shuffledCards (index * 2), jsGet shuffledCards (index * 2 + 1)],
       winAmount = 0, handType = None \<rparr>"

definition dealHoleCards :: "nat list \<Rightarrow> PlayerS list \<Rightarrow> PlayerS list" where
  "dealHoleCards shuffledCards ps =
     map (\<lambda>(index, player). player\<lparr>playerStatus := Some (freshStatus shuffledCards index)\<rparr>)
       (enumerate 0 ps)"

definition postBlind :: "nat \<Rightarrow> nat \<Rightarrow> RoomS \<Rightarrow> RoomS" where
  "postBlind blind index room =
     (case (gameStatus room, jsGet (players room) index) of
        (Some gs, Some player) \<Rightarrow>
          (case playerStatus player of
             None \<Rightarrow> room
           | Some st \<Rightarrow>
               (let amount = (if index = blind then 10 else 5);
                    gs1 = (if currentBetAmount gs < amount
                           then gs\<lparr>currentBetAmount := amount\<rparr> else gs)
                in if balance player \<ge> amount
                   then room\<lparr>players := (players room)[index :=
                                player\<lparr>balance := balance player - amount,
                                       playerStatus :=
                                         Some (st\<lparr>subTotalBetAmount := amount\<rparr>)\<rparr>],
                             gameStatus := Some (gs1\<lparr>pot := pot gs1 + amount\<rparr>)\<rparr>
                   else room\<lparr>players := (players room)[index :=
                                player\<lparr>playerStatus := Some (st\<lparr>status := BUST\<rparr>)\<rparr>],
                             gameStatus := Some gs1\<rparr>))
      | _ \<Rightarrow> room)"

fun postBlinds :: "nat \<Rightarrow> nat list \<Rightarrow> RoomS \<Rightarrow> RoomS result" where
  "postBlinds blind [] room = Some (Inr room)"
| "postBlinds blind (index # rest) room =
     (case jsGet (players room) index of
        None \<Rightarrow> postBlinds blind rest room
      | Some player \<Rightarrow>
          (case playerStatus player of
             None \<Rightarrow> postBlinds blind rest room
           | Some st \<Rightarrow>
               if index = blind then postBlinds blind rest (postBlind blind index room)
               else bindR (prevTurn room (Some blind))
                      (\<lambda>p. if index = p then postBlinds blind rest (postBlind blind index room)
                           else postBlinds blind rest room)))"

definition startNewRound ::
  "(nat \<Rightarrow> nat) \<Rightarrow> int \<Rightarrow> RoomS \<Rightarrow> (RoomS \<times> Effect list) result" where
  "startNewRound rnd now room =
     (let shuffledCards = shuffleCards allCards rnd
      in bindR (case gameStatus room of
                  None \<Rightarrow> Some (Inr (rand (numberOfPlayers room) (rnd 2000)))
                | Some old \<Rightarrow> nextTurn room (Some (blindTurn old)))
           (\<lambda>blind.
              let gs = \<lparr> round = (case gameStatus room of None \<Rightarrow> 1 | Some old \<Rightarrow> round old + 1),
                         roundFinished = False, currentBetAmount = 0, pot = 0,
                         blindTurn = blind, playTurn = blind, board = [],
                         cards = Some shuffledCards, timestamp = 0 \<rparr>;
                  room1 = room\<lparr>players := dealHoleCards shuffledCards (players room),
                               gameStatus := Some gs\<rparr>
              in bindR (postBlinds blind [0 ..< length (players room1)] room1)
                   (\<lambda>room2.
                      guarded (exactRoom room1 \<and> exactRoom room2)
                     (bindR (nextTurn room2 (Some blind))
                        (\<lambda>t. Some (Inr
                           (room2\<lparr>gameStatus :=
                               map_option (\<lambda>g. g\<lparr>playTurn := t, timestamp := now\<rparr>)
                                 (gameStatus room2)\<rparr>,
                            [SetTimeout RoundStartTimeout (r_id room2)])))))))"

section \<open>Player actions\<close>

text \<open>
  \<^verbatim>\<open>
  public updateGameStatus(socket: Socket, { roomId, status, amount }: {...}): void {
      if (!socket) return;
      const index = getIndex(this.sockets, socket.id);
      let player = this.players[index];
      const room = getRoom(this.rooms, roomId);
      if (!room || !room.gameStatus) return;
      const gameStatus = room.gameStatus;
      const playerIndex = room.players.map(player => player.id).indexOf(player.id);
      if (playerIndex === -1 || playerIndex !== gameStatus.playTurn || !gameStatus.cards) {
          return;
      }
      player = room.players[playerIndex];
      const playerStatus = player.playerStatus;
      if (!playerStatus) return;
      playerStatus.status = status;
      let dealCardsFlag = false;
      if (status === PlayStatus.CALL) { ... }
      else if (status === PlayStatus.RAISE && amount) { ... }
      else if (status === PlayStatus.CHECK) { ... }
      else if (status === PlayStatus.FOLD) { ... }
      else if (status === PlayStatus.ALLIN) { ... }
      room.gameStatus.timestamp = new Date().getTime();
      if (dealCardsFlag) return;
      room.players.forEach((player) => {
          const index = getPlayerIndex(this.players, player.id);
          const socket = this.sockets[index];
          socket.emit("updatedGameStatus",
              { room: cutPlayersCards(cutRoomCards(room)), player });
      });
      setTimeout(() => { ... }, PLAYER_WAIT_TIME);
  }
  \<close>
  The five branches are the functions \<open>actCall\<close> to \<open>actAllin\<close> below. Each takes
  the room (in which the acting seat already carries the new status) and the seat, and
  gives the room as the branch leaves it together with how the function goes on:
  \<open>Return\<close> for the \<^verbatim>\<open>return\<close> inside the RAISE branch, \<open>Continue f\<close> for reaching
  the end of the branch with \<^verbatim>\<open>dealCardsFlag\<close> equal to \<open>f\<close>.
\<close>

datatype Flow = Return | Continue bool

text \<open>
  \<^verbatim>\<open>amount\<close> comes from the client as it is (\<^verbatim>\<open>index.ts\<close> hands the data of the
  message to \<^verbatim>\<open>updateGameStatus\<close>), and the source tests it for truthiness only. The
  model tells three cases apart: \<open>None\<close> for no amount or a falsy value other than a number
  (\<^verbatim>\<open>undefined\<close>, \<^verbatim>\<open>null\<close>, \<^verbatim>\<open>NaN\<close>, an empty string), \<open>Some (Whole a)\<close> for the whole
  number \<open>a\<close>, and \<open>Some Other\<close> for any other truthy value (a fraction, an infinity, a
  string), with which the source computes numbers the model has not.
\<close>

datatype Amount = Whole int | Other

type_synonym Step = "(RoomS \<times> Flow \<times> Effect list) result"

text \<open>
  The three assignments by which CALL, RAISE and ALLIN move \<open>betAmount\<close> chips from
  the acting seat to the pot:
  \<^verbatim>\<open>
  player.balance -= betAmount;
  playerStatus.subTotalBetAmount += betAmount;
  gameStatus.pot += betAmount;
  \<close>
  (ALLIN writes them with \<^verbatim>\<open>player.balance\<close> for \<open>betAmount\<close>, and \<open>0\<close> for the
  difference). \<open>player\<close>, \<open>st\<close> and \<open>gs\<close> are the seat, its status and the game status
  as the branch has them at that point. Each branch guards what it computes: the room
  holds exact numbers before \<open>payIn\<close> and after it, and so are the amounts computed on the
  way (\<open>owed\<close>, \<open>betAmount\<close>, the raised \<^verbatim>\<open>currentBetAmount\<close>).
\<close>

definition payIn ::
  "RoomS \<Rightarrow> GameStatus \<Rightarrow> nat \<Rightarrow> PlayerS \<Rightarrow> Cards PlayerStatus \<Rightarrow> int \<Rightarrow> RoomS" where
  "payIn room gs playerIndex player st betAmount =
     room\<lparr>players := (players room)[playerIndex :=
                 player\<lparr>balance := balance player - betAmount,
                        playerStatus :=
                          Some (st\<lparr>subTotalBetAmount := subTotalBetAmount st + betAmount\<rparr>)\<rparr>],
          gameStatus := Some (gs\<lparr>pot := pot gs + betAmount\<rparr>)\<rparr>"

text \<open>
  \<^verbatim>\<open>
  let nextPlayer = room.players[gameStatus.playTurn];
  if (nextPlayer.playerStatus?.subTotalBetAmount === gameStatus.currentBetAmount) {
      dealCardsFlag = this.dealCards(room);
  }
  \<close>
\<close>

definition dealIfMatched :: "PokerGame \<Rightarrow> Solver \<Rightarrow> RoomS \<Rightarrow> (RoomS \<times> bool \<times> Effect list) result" where
  "dealIfMatched game solve room =
     (case gameStatus room of
        None \<Rightarrow> Some (Inr (room, False, []))
      | Some gs \<Rightarrow>
          (case jsGet (players room) (playTurn gs) of
             None \<Rightarrow> Some (Inl TypeError)
           | Some nextPlayer \<Rightarrow>
               (case playerStatus nextPlayer of
                  None \<Rightarrow> Some (Inr (room, False, []))
                | Some st \<Rightarrow>
                    if subTotalBetAmount st = currentBetAmount gs
                    then dealCards game solve room
                    else Some (Inr (room, False, [])))))"

text \<open>
  \<^verbatim>\<open>
  if (status === PlayStatus.CALL) {
      let betAmount = gameStatus.currentBetAmount - playerStatus.subTotalBetAmount;
      if (player.balance < betAmount) {
          betAmount = player.balance;
          playerStatus.status = PlayStatus.ALLIN;
      }
      player.balance -= betAmount;
      playerStatus.subTotalBetAmount += betAmount;
      gameStatus.pot += betAmount;
      gameStatus.playTurn = nextTurn(room);
      let nextPlayer = room.players[gameStatus.playTurn];
      if (nextPlayer.playerStatus?.subTotalBetAmount === gameStatus.currentBetAmount) {
          dealCardsFlag = this.dealCards(room);
      }
  }
  \<close>
\<close>

definition actCall ::
  "PokerGame \<Rightarrow> Solver \<Rightarrow> RoomS \<Rightarrow> nat \<Rightarrow> PlayerS \<Rightarrow> Cards PlayerStatus \<Rightarrow> GameStatus \<Rightarrow> Step" where
  "actCall game solve room playerIndex player st gs =
     (let owed = currentBetAmount gs - subTotalBetAmount st;
          room1 = (if balance player < owed
                   then payIn room gs playerIndex player (st\<lparr>status := ALLIN\<rparr>) (balance player)
                   else payIn room gs playerIndex player st owed)
      in guarded (exactRoom room \<and> exact owed \<and> exactRoom room1)
           (bindR (nextTurn room1 None)
              (\<lambda>t. bindR (dealIfMatched game solve (setPlayTurn t room1))
                      (\<lambda>(room2, flag, es). Some (Inr (room2, Continue flag, es))))))"

text \<open>
  \<^verbatim>\<open>
  } else if (status === PlayStatus.RAISE && amount) {
      let betAmount = gameStatus.currentBetAmount + amount - playerStatus.subTotalBetAmount;
      if (player.balance < betAmount) {
          return;
      }
      player.balance -= betAmount;
      gameStatus.currentBetAmount += amount;
      playerStatus.subTotalBetAmount += betAmount
      gameStatus.pot += betAmount;
      gameStatus.playTurn = nextTurn(room);
  }
  \<close>
\<close>

definition actRaise ::
  "RoomS \<Rightarrow> nat \<Rightarrow> PlayerS \<Rightarrow> Cards PlayerStatus \<Rightarrow> GameStatus \<Rightarrow> int \<Rightarrow> Step" where
  "actRaise room playerIndex player st gs amount =
     (let betAmount = currentBetAmount gs + amount - subTotalBetAmount st
      in guarded (exactRoom room \<and> exact (currentBetAmount gs + amount) \<and> exact betAmount)
           (if balance player < betAmount then Some (Inr (room, Return, []))
            else
              (let room1 = payIn room (gs\<lparr>currentBetAmount := currentBetAmount gs + amount\<rparr>)
                             playerIndex player st betAmount
               in guarded (exactRoom room1)
                    (bindR (nextTurn room1 None)
                       (\<lambda>t. Some (Inr (setPlayTurn t room1, Continue False, [])))))))"

text \<open>
  \<^verbatim>\<open>
  } else if (status === PlayStatus.CHECK) {
      if (nextTurn(room) === nextTurn(room, gameStatus.blindTurn)) {
          dealCardsFlag = this.dealCards(room);
      } else {
          gameStatus.playTurn = nextTurn(room);
      }
  }
  \<close>
\<close>

definition actCheck :: "PokerGame \<Rightarrow> Solver \<Rightarrow> RoomS \<Rightarrow> GameStatus \<Rightarrow> Step" where
  "actCheck game solve room gs =
     bindR (nextTurn room None)
       (\<lambda>t. bindR (nextTurn room (Some (blindTurn gs)))
               (\<lambda>b. if t = b
                    then bindR (dealCards game solve room)
                           (\<lambda>(room1, flag, es). Some (Inr (room1, Continue flag, es)))
                    else Some (Inr (setPlayTurn t room, Continue False, []))))"

text \<open>
  \<^verbatim>\<open>
  } else if (status === PlayStatus.FOLD) {
      playerStatus.status = PlayStatus.FOLD;
      gameStatus.playTurn = nextTurn(room);
      let nextPlayer = room.players[gameStatus.playTurn];
      if (nextPlayer.playerStatus?.subTotalBetAmount === gameStatus.currentBetAmount) {
          dealCardsFlag = this.dealCards(room);
      }
      let activePlayers = 0;
      room.players.forEach((player) => {
          const { playerStatus } = player;
          if (playerStatus &&
              playerStatus.status !== PlayStatus.FOLD &&
              playerStatus.status !== PlayStatus.BUST &&
              playerStatus.status !== PlayStatus.ALLIN
          ) {
              activePlayers++;
          }
      });
      if (activePlayers === 1) {
          while (!this.dealCards(room));
      }
  }
  \<close>
\<close>

definition activePlayers :: "RoomS \<Rightarrow> nat" where
  "activePlayers room =
     length (filter (\<lambda>player.
                       case playerStatus player of
                         None \<Rightarrow> False
                       | Some st \<Rightarrow>
                           status st \<noteq> FOLD \<and> status st \<noteq> BUST \<and> status st \<noteq> ALLIN)
               (players room))"

definition actFold :: "PokerGame \<Rightarrow> Solver \<Rightarrow> RoomS \<Rightarrow> Step" where
  "actFold game solve room =
     bindR (nextTurn room None)
       (\<lambda>t. bindR (dealIfMatched game solve (setPlayTurn t room))
               (\<lambda>(room1, flag, es).
                  if activePlayers room1 = 1
                  then bindR (dealCardsLoop game solve room1 es)
                         (\<lambda>(room2, es'). Some (Inr (room2, Continue flag, es')))
                  else Some (Inr (room1, Continue flag, es))))"

text \<open>
  \<^verbatim>\<open>
  } else if (status === PlayStatus.ALLIN) {
      playerStatus.status = PlayStatus.ALLIN;
      playerStatus.subTotalBetAmount += player.balance;
      if (gameStatus.currentBetAmount < playerStatus.subTotalBetAmount) {
          gameStatus.currentBetAmount = playerStatus.subTotalBetAmount;
      }
      gameStatus.pot += player.balance;
      player.balance = 0;
      gameStatus.playTurn = nextTurn(room);
  }
  \<close>
\<close>

definition actAllin ::
  "RoomS \<Rightarrow> nat \<Rightarrow> PlayerS \<Rightarrow> Cards PlayerStatus \<Rightarrow> GameStatus \<Rightarrow> Step" where
  "actAllin room playerIndex player st gs =
     (let sub = subTotalBetAmount st + balance player;
          room1 = payIn room
                    (gs\<lparr>currentBetAmount :=
                          (if currentBetAmount gs < sub then sub else currentBetAmount gs)\<rparr>)
                    playerIndex player (st\<lparr>status := ALLIN\<rparr>) (balance player)
      in guarded (exactRoom room \<and> exactRoom room1)
           (bindR (nextTurn room1 None)
              (\<lambda>t. Some (Inr (setPlayTurn t room1, Continue False, [])))))"

text \<open>
  The part of \<^verbatim>\<open>updateGameStatus\<close> that works on the room, once the room and the seat
  of the sender are known: from \<^verbatim>\<open>player = room.players[playerIndex]\<close> to the end of
  the branches. \<^verbatim>\<open>amount\<close> is optional, and \<^verbatim>\<open>status === RAISE && amount\<close> fails both
  for a missing amount and for \<open>0\<close>; a status with no branch of its own changes nothing
  but the status of the seat. A RAISE by an amount that is no whole number is not followed.
\<close>

definition applyAction ::
  "PokerGame \<Rightarrow> Solver \<Rightarrow> RoomS \<Rightarrow> GameStatus \<Rightarrow> nat \<Rightarrow> PlayStatus \<Rightarrow> Amount option \<Rightarrow> Step" where
  "applyAction game solve room gs playerIndex newStatus amount =
     (case jsGet (players room) playerIndex of
        None \<Rightarrow> Some (Inl TypeError)
      | Some player \<Rightarrow>
          (case playerStatus player of
             None \<Rightarrow> Some (Inr (room, Return, []))
           | Some st0 \<Rightarrow>
               (let st = st0\<lparr>status := newStatus\<rparr>;
                    player1 = player\<lparr>playerStatus := Some st\<rparr>;
                    room1 = room\<lparr>players := (players room)[playerIndex := player1]\<rparr>
                in if newStatus = CALL then actCall game solve room1 playerIndex player1 st gs
                   else if newStatus = RAISE \<and> amount \<noteq> None \<and> amount \<noteq> Some (Whole 0)
                   then (case amount of
                           Some (Whole a) \<Rightarrow> actRaise room1 playerIndex player1 st gs a
                         | _ \<Rightarrow> Some (Inl Inexact))
                   else if newStatus = CHECK then actCheck game solve room1 gs
                   else if newStatus = FOLD then actFold game solve room1
                   else if newStatus = ALLIN then actAllin room1 playerIndex player1 st gs
                   else Some (Inr (room1, Continue False, [])))))"

definition setTimestamp :: "int \<Rightarrow> RoomS \<Rightarrow> RoomS" where
  "setTimestamp now room =
     room\<lparr>gameStatus := map_option (\<lambda>g. g\<lparr>timestamp := now\<rparr>) (gameStatus room)\<rparr>"

definition putRoom :: "PokerGame \<Rightarrow> string \<Rightarrow> RoomS \<Rightarrow> PokerGame" where
  "putRoom game i room =
     (case indexOf (map r_id (rooms game)) i of
        None \<Rightarrow> game
      | Some k \<Rightarrow> game\<lparr>rooms := (rooms game)[k := room]\<rparr>)"

text \<open>
  The end of \<open>updateGameStatus\<close>, after the branches: the timestamp, the broadcast of the
  redacted room to every seat and the new timer, unless the branch has returned or
  \<open>dealCards\<close> has reached the showdown. \<open>room\<close> is written back to the place of the
  room with id \<open>i\<close> in \<^verbatim>\<open>this.rooms\<close>.
\<close>

definition broadcastStatus :: "PokerGame \<Rightarrow> RoomS \<Rightarrow> error + Effect list" where
  "broadcastStatus game room =
     emitAll (map (\<lambda>player.
                     (socketOf game player, ''updatedGameStatus'', redactedPayload room player))
                (players room))"

definition finishAction ::
  "PokerGame \<Rightarrow> int \<Rightarrow> string \<Rightarrow> RoomS \<times> Flow \<times> Effect list \<Rightarrow>
   (PokerGame \<times> Effect list) result" where
  "finishAction game now i r =
     (case r of (room, flow, es) \<Rightarrow>
        (case flow of
           Return \<Rightarrow> Some (Inr (putRoom game i room, es))
         | Continue flag \<Rightarrow>
             if flag then Some (Inr (putRoom game i (setTimestamp now room), es))
             else
               (case broadcastStatus game (setTimestamp now room) of
                  Inl e \<Rightarrow> Some (Inl e)
                | Inr es' \<Rightarrow>
                    Some (Inr (putRoom game i (setTimestamp now room),
                               es @ es' @ [SetTimeout TurnTimeout (r_id room)])))))"

definition updateGameStatus ::
  "PokerGame \<Rightarrow> Solver \<Rightarrow> int \<Rightarrow> string option \<Rightarrow> string \<Rightarrow> PlayStatus \<Rightarrow> Amount option \<Rightarrow>
   (PokerGame \<times> Effect list) result" where
  "updateGameStatus game solve now socket i newStatus amount =
     (case socket of
        None \<Rightarrow> Some (Inr (game, []))
      | Some socketId \<Rightarrow>
          (case getRoom (rooms game) i of
             None \<Rightarrow> Some (Inr (game, []))
           | Some room \<Rightarrow>
               (case gameStatus room of
                  None \<Rightarrow> Some (Inr (game, []))
                | Some gs \<Rightarrow>
                    (case atIndex (gamePlayers game) (getIndex (sockets game) socketId) of
                       None \<Rightarrow> Some (Inl TypeError)
                     | Some sender \<Rightarrow>
                         (case indexOf (map p_id (players room)) (p_id sender) of
                            None \<Rightarrow> Some (Inr (game, []))
                          | Some playerIndex \<Rightarrow>
                              if playerIndex \<noteq> playTurn gs \<or> cards gs = None
                              then Some (Inr (game, []))
                              else
                                bindR (applyAction game solve room gs playerIndex newStatus amount)
                                  (finishAction game now i))))))"

section \<open>Turn timers\<close>

text \<open>
  The callback that \<^verbatim>\<open>startNewRound\<close> hands to \<^verbatim>\<open>setTimeout\<close>:
  \<^verbatim>\<open>
  setTimeout(() => {
      const { gameStatus } = room;
      if (gameStatus && new Date().getTime() - gameStatus.timestamp >= PLAYER_WAIT_TIME) {
          const player = room.players[gameStatus.playTurn];
          if (!player) return;
          const { playerStatus } = player;
          if (!playerStatus) return;
          const playerIndex = getPlayerIndex(this.players, player.id);
          const socket = this.sockets[playerIndex];
          this.updateGameStatus(socket, { roomId: room.id, status: PlayStatus.FOLD });
      }
  }, PLAYER_WAIT_TIME);
  \<close>
  and the one that \<^verbatim>\<open>updateGameStatus\<close> hands to it, which differs in its last lines:
  \<^verbatim>\<open>
          if (playerStatus.subTotalBetAmount === gameStatus.currentBetAmount) {
              this.updateGameStatus(socket, { roomId: room.id, status: PlayStatus.CHECK });
          } else {
              this.updateGameStatus(socket, { roomId: room.id, status: PlayStatus.FOLD });
          }
  \<close>
  \<^verbatim>\<open>PLAYER_WAIT_TIME\<close> comes from \<^verbatim>\<open>./constants\<close>, which is not at hand: it is the
  parameter \<open>wait\<close>. \<open>room\<close> is the room the callback closes over, as it is when the
  timer fires at time \<open>now\<close>. The functions \<open>roundStartTimeout\<close> and \<open>turnTimeout\<close> give
  the seat and the status that the callback submits, or \<open>None\<close> when it submits nothing.
\<close>

definition roundStartTimeout :: "int \<Rightarrow> int \<Rightarrow> RoomS \<Rightarrow> (PlayerS \<times> PlayStatus) option" where
  "roundStartTimeout wait now room =
     (case gameStatus room of
        None \<Rightarrow> None
      | Some gs \<Rightarrow>
          if now - timestamp gs \<ge> wait
          then (case jsGet (players room) (playTurn gs) of
                  None \<Rightarrow> None
                | Some player \<Rightarrow>
                    (case playerStatus player of
                       None \<Rightarrow> None
                     | Some st \<Rightarrow> Some (player, FOLD)))
          else None)"

definition turnTimeout :: "int \<Rightarrow> int \<Rightarrow> RoomS \<Rightarrow> (PlayerS \<times> PlayStatus) option" where
  "turnTimeout wait now room =
     (case gameStatus room of
        None \<Rightarrow> None
      | Some gs \<Rightarrow>
          if now - timestamp gs \<ge> wait
          then (case jsGet (players room) (playTurn gs) of
                  None \<Rightarrow> None
                | Some player \<Rightarrow>
                    (case playerStatus player of
                       None \<Rightarrow> None
                     | Some st \<Rightarrow>
                         if subTotalBetAmount st = currentBetAmount gs
                         then Some (player, CHECK)
                         else Some (player, FOLD)))
          else None)"

definition fire ::
  "PokerGame \<Rightarrow> Solver \<Rightarrow> int \<Rightarrow> RoomS \<Rightarrow> (PlayerS \<times> PlayStatus) option \<Rightarrow>
   (PokerGame \<times> Effect list) result" where
  "fire game solve now room submitted =
     (case submitted of
        None \<Rightarrow> Some (Inr (game, []))
      | Some (player, s) \<Rightarrow>
          updateGameStatus game solve now (socketOf game player) (r_id room) s None)"

definition onRoundStartTimeout ::
  "PokerGame \<Rightarrow> Solver \<Rightarrow> int \<Rightarrow> int \<Rightarrow> RoomS \<Rightarrow> (PokerGame \<times> Effect list) result" where
  "onRoundStartTimeout game solve wait now room =
     fire game solve now room (roundStartTimeout wait now room)"

definition onTurnTimeout ::
  "PokerGame \<Rightarrow> Solver \<Rightarrow> int \<Rightarrow> int \<Rightarrow> RoomS \<Rightarrow> (PokerGame \<times> Effect list) result" where
  "onTurnTimeout game solve wait now room =
     fire game solve now room (turnTimeout wait now room)"

section \<open>Joining a room\<close>

text \<open>
  \<^verbatim>\<open>
  public joinRoom(socket: Socket, { roomId }: { roomId: string }): void {
      const index = getIndex(this.sockets, socket.id);
      const newPlayer = this.players[index];
      const room = getRoom(this.rooms, roomId);
      if (room.numberOfPlayers >= 10) {
          return;
      }
      if (room.players.map(player => player.id).indexOf(newPlayer.id) !== -1) {
          return;
      }
      newPlayer.roomId = roomId;
      room.numberOfPlayers++;
      room.players.push(newPlayer);
      this.players.forEach((player) => {
          const index = getPlayerIndex(this.players, player.id);
          const socket = this.sockets[index];
          if (getPlayerIndex(room.players, player.id) === -1) {
              socket.emit("updatedRoom", { room: cutPlayers(room) });
          } else {
              socket.emit("joinedPlayer", { room });
          }
      })
  }
  \<close>
  A room that does not exist makes \<^verbatim>\<open>room.numberOfPlayers\<close> throw; a socket that never
  joined the game makes \<^verbatim>\<open>newPlayer.id\<close> throw.
\<close>

definition joinMessages ::
  "PokerGame \<Rightarrow> RoomS \<Rightarrow> (string option \<times> string \<times> (error + Payload)) list" where
  "joinMessages game room =
     map (\<lambda>player.
            if getPlayerIndex (players room) (p_id player) = None
            then (socketOf game player, ''updatedRoom'',
                  Inr (Payload (cutPlayers (viewRoom room)) None))
            else (socketOf game player, ''joinedPlayer'',
                  Inr (Payload (viewRoom room) None)))
       (gamePlayers game)"

definition joinRoom :: "PokerGame \<Rightarrow> string \<Rightarrow> string \<Rightarrow> error + PokerGame \<times> Effect list" where
  "joinRoom game socketId i =
     (case getRoom (rooms game) i of
        None \<Rightarrow> Inl TypeError
      | Some room \<Rightarrow>
          if numberOfPlayers room \<ge> 10 then Inr (game, [])
          else
            (case getIndex (sockets game) socketId of
               None \<Rightarrow> Inl TypeError
             | Some index \<Rightarrow>
                 (case jsGet (gamePlayers game) index of
                    None \<Rightarrow> Inl TypeError
                  | Some newPlayer \<Rightarrow>
                      if indexOf (map p_id (players room)) (p_id newPlayer) \<noteq> None
                      then Inr (game, [])
                      else
                        (let joined = newPlayer\<lparr>roomId := Some i\<rparr>;
                             room1 = room\<lparr>numberOfPlayers := numberOfPlayers room + 1,
                                          players := players room @ [joined]\<rparr>;
                             game1 = (putRoom game i room1)
                                       \<lparr>gamePlayers := (gamePlayers game)[index := joined]\<rparr>
                         in case emitAll (joinMessages game1 room1) of
                              Inl e \<Rightarrow> Inl e
                            | Inr es \<Rightarrow> Inr (game1, es)))))"

section \<open>Reading a result\<close>


definition roomJoined :: "error + PokerGame \<times> Effect list \<Rightarrow> string \<Rightarrow> RoomS option" where
  "roomJoined r i = (case r of Inr (game', es) \<Rightarrow> getRoom (rooms game') i | Inl e \<Rightarrow> None)"

definition emitted :: "error + PokerGame \<times> Effect list \<Rightarrow> Effect list option" where
  "emitted r = (case r of Inr (game', es) \<Rightarrow> Some es | Inl e \<Rightarrow> None)"



section \<open>Chip counts\<close>





definition chipsOf :: "RoomS \<Rightarrow> int" where
  "chipsOf room =
     sum_list (map balance (players room))
     + (case gameStatus room of None \<Rightarrow> 0 | Some gs \<Rightarrow> pot gs)"


definition sameChips :: "RoomS \<Rightarrow> RoomS \<Rightarrow> bool" where
  "sameChips room room' \<longleftrightarrow> r_id room' = r_id room \<and> chipsOf room' = chipsOf room"

section \<open>Dealt cards\<close>

text \<open>
  The hole cards of the seats, the shuffled cards of the round and the board of a room
  (the field \<^verbatim>\<open>deck\<close> of its \<^verbatim>\<open>gameStatus\<close>). \<open>street cs k\<close> is the board once \<open>k\<close>
  cards have been revealed from \<open>cs\<close>, at the offsets \<open>51, 50, ...\<close>; \<open>boardOk\<close> says
  that the board is the street of 0, 3, 4 or 5 cards.
\<close>

definition holeCards :: "RoomS \<Rightarrow> Cards option list" where
  "holeCards room = map (\<lambda>player. map_option deck (playerStatus player)) (players room)"

definition cardsOf :: "RoomS \<Rightarrow> nat list option" where
  "cardsOf room = (case gameStatus room of None \<Rightarrow> None | Some gs \<Rightarrow> cards gs)"

definition boardOf :: "RoomS \<Rightarrow> Cards" where
  "boardOf room = (case gameStatus room of None \<Rightarrow> [] | Some gs \<Rightarrow> board gs)"

definition street :: "nat list \<Rightarrow> nat \<Rightarrow> Cards" where
  "street cs k = map (\<lambda>j. jsGet cs (51 - j)) [0 ..< k]"

definition boardOk :: "RoomS \<Rightarrow> bool" where
  "boardOk room \<longleftrightarrow>
     (case cardsOf room of
        None \<Rightarrow> False
      | Some cs \<Rightarrow>
          length (boardOf room) \<in> {0, 3, 4, 5}
          \<and> boardOf room = street cs (length (boardOf room)))"




definition sameCards :: "RoomS \<Rightarrow> RoomS \<Rightarrow> bool" where
  "sameCards room room' \<longleftrightarrow>
     holeCards room' = holeCards room \<and> cardsOf room' = cardsOf room
     \<and> (boardOk room \<longrightarrow> boardOk room' \<and> length (boardOf room) \<le> length (boardOf room'))"

text \<open>
  What every step of an action keeps: the id of the room, its chips, the hole cards and
  the shuffled cards; and the board stays a street, of as many cards or more.
\<close>

definition keeps :: "RoomS \<Rightarrow> RoomS \<Rightarrow> bool" where
  "keeps room room' \<longleftrightarrow> sameChips room room' \<and> sameCards room room'"

section \<open>Example states\<close>

text \<open>Concrete objects on which the theorems below are instantiated.\<close>

definition mkStatus :: "PlayStatus \<Rightarrow> int \<Rightarrow> int \<Rightarrow> Cards PlayerStatus" where
  "mkStatus s tot sub =
     \<lparr> totalBetAmout = tot, subTotalBetAmount = sub, status = s, deck = [],
       winAmount = 0, handType = None \<rparr>"

definition mkPlayer :: "string \<Rightarrow> int \<Rightarrow> Cards PlayerStatus option \<Rightarrow> PlayerS" where
  "mkPlayer i b st =
     \<lparr> p_id = i, p_name = i, balance = b, roomId = None, playerStatus = st \<rparr>"

definition mkGame :: "int \<Rightarrow> int \<Rightarrow> nat \<Rightarrow> nat \<Rightarrow> GameStatus" where
  "mkGame bet p blind turn =
     \<lparr> round = 1, roundFinished = False, currentBetAmount = bet, pot = p,
       blindTurn = blind, playTurn = turn, board = [], cards = Some allCards,
       timestamp = 0 \<rparr>"

definition mkRoom :: "PlayerS list \<Rightarrow> GameStatus option \<Rightarrow> RoomS" where
  "mkRoom ps g =
     \<lparr> r_id = ''room'', r_name = ''room'', creator = mkPlayer ''a'' 2000 None,
       started = True, numberOfPlayers = length ps, players = ps, gameStatus = g \<rparr>"

text \<open>
  Two seats before their first round; the second cannot pay the small blind. \<open>afterDeal\<close>
  is the room once \<open>startNewRound\<close> has run on it.
\<close>

definition bustRoom :: RoomS where
  "bustRoom = mkRoom [mkPlayer ''a'' 2000 None, mkPlayer ''b'' 3 None] None"

definition afterDeal :: RoomS where
  "afterDeal =
     mkRoom
       [mkPlayer ''a'' 1990
          (Some \<lparr> totalBetAmout = 0, subTotalBetAmount = 10, status = NONE,
                  deck = [Some 0, Some 1], winAmount = 0, handType = None \<rparr>),
        mkPlayer ''b'' 3
          (Some \<lparr> totalBetAmout = 0, subTotalBetAmount = 0, status = BUST,
                  deck = [Some 2, Some 3], winAmount = 0, handType = None \<rparr>)]
       (Some (mkGame 10 10 0 0))"

text \<open>
  A round in which seat 0 is to act: it holds 5 chips and has bet nothing in this street,
  where the bet to match is 10. \<open>s\<close> is the status of seat 0.
\<close>

definition raiseRoom :: "PlayStatus \<Rightarrow> RoomS" where
  "raiseRoom s =
     mkRoom [mkPlayer ''a'' 5 (Some (mkStatus s 0 0)),
             mkPlayer ''b'' 1990 (Some (mkStatus NONE 0 10))]
       (Some (mkGame 10 10 1 0))"

definition raiseGame :: "PlayStatus \<Rightarrow> PokerGame" where
  "raiseGame s =
     \<lparr> sockets = [''s1'', ''s2''],
       gamePlayers = [mkPlayer ''a'' 5 None, mkPlayer ''b'' 1990 None],
       rooms = [raiseRoom s] \<rparr>"

text \<open>A solver for which a hand holding the eight of diamonds beats every other hand.\<close>

definition eightSolver :: Solver where
  "eightSolver ss = \<lparr> h_rank = (if ''8d'' \<in> set ss then 9 else 1), h_name = ''hand'' \<rparr>"








text \<open>
  Three seats at the start of a round whose blind is seat 0: seat 0 has posted 10, seat 2
  has posted 5, and seat 1, which has posted nothing, is the first to act. \<open>flopRoom\<close>
  is the room with the bets collected and the flop on the board.
\<close>

definition threeRoom :: "PlayStatus \<Rightarrow> RoomS" where
  "threeRoom s =
     mkRoom [mkPlayer ''a'' 1990 (Some (mkStatus NONE 0 10)),
             mkPlayer ''b'' 2000 (Some (mkStatus s 0 0)),
             mkPlayer ''c'' 1995 (Some (mkStatus NONE 0 5))]
       (Some (mkGame 10 15 0 1))"







text \<open>
  Eleven registered players, ten of them seated in a room that counts nine. The room is
  the one that these calls leave: \<open>a\<close> creates it (the creator's \<^verbatim>\<open>roomId\<close> stays
  unset), \<open>b\<close> joins, sends \<^verbatim>\<open>leaveRoom\<close> twice and joins again, then \<open>c\<close> to \<open>j\<close>
  join. No round has been started in it.
\<close>

definition crowd :: "string list" where
  "crowd = [''a'', ''b'', ''c'', ''d'', ''e'', ''f'', ''g'', ''h'', ''i'', ''j'', ''k'']"

definition crowdSeats :: "PlayerS list" where
  "crowdSeats =
     mkPlayer ''a'' 2000 None
     # map (\<lambda>n. (mkPlayer n 2000 None)\<lparr>roomId := Some ''room''\<rparr>) (take 9 (tl crowd))"

definition crowdRoom :: RoomS where
  "crowdRoom = (mkRoom crowdSeats None)\<lparr>started := False, numberOfPlayers := 9\<rparr>"

definition crowdGame :: PokerGame where
  "crowdGame =
     \<lparr> sockets = map (\<lambda>n. ''s'' @ n) crowd,
       gamePlayers = crowdSeats @ [mkPlayer ''k'' 2000 None],
       rooms = [crowdRoom] \<rparr>"

section \<open>Lookups and broadcasts\<close>

lemma jsGet_Nil [simp]: "jsGet [] n = None"
  by (simp add: jsGet_def)

lemma jsGet_Cons [simp]:
  "jsGet (x # xs) n = (case n of 0 \<Rightarrow> Some x | Suc m \<Rightarrow> jsGet xs m)"
  by (simp add: jsGet_def split: nat.splits)

lemmas room_defs = mkRoom_def mkPlayer_def mkGame_def mkStatus_def

lemmas exact_defs = exact_def exactPlayer_def exactRoom_def guarded_def

lemma shuffleStep_zero: "xs \<noteq> [] \<Longrightarrow> shuffleStep (length xs) (\<lambda>k. 0) i xs = xs"
  by (simp add: shuffleStep_def rand_def)

lemma shuffle_fold_zero:
  "xs \<noteq> [] \<Longrightarrow> fold (shuffleStep (length xs) (\<lambda>k. 0)) is xs = xs"
  by (induction "is") (simp_all add: shuffleStep_zero)

lemma shuffleCards_zero: "shuffleCards allCards (\<lambda>k. 0) = allCards"
  using shuffle_fold_zero [of allCards "[0 ..< 1000]"]
  by (simp add: shuffleCards_def allCards_def)

lemma allCards_get: "i < 52 \<Longrightarrow> jsGet allCards i = Some i"
  by (simp add: jsGet_def allCards_def)

lemma indexOf_Some: "indexOf xs x = Some k \<Longrightarrow> k < length xs \<and> xs ! k = x"
proof (induction xs arbitrary: k)
  case Nil
  then show ?case by simp
next
  case (Cons y ys)
  show ?case
  proof (cases "y = x")
    case True
    with Cons.prems show ?thesis by simp
  next
    case False
    with Cons.prems obtain j where j: "indexOf ys x = Some j" "k = Suc j" by auto
    with Cons.IH [OF j(1)] show ?thesis by simp
  qed
qed

lemma indexOf_None: "indexOf xs x = None \<longleftrightarrow> x \<notin> set xs"
  by (induction xs) auto

lemma indexOf_mem: "x \<in> set xs \<Longrightarrow> \<exists>k<length xs. indexOf xs x = Some k"
  using indexOf_None [of xs x] indexOf_Some [of xs x] by (cases "indexOf xs x") auto

lemma getRoom_Some:
  assumes "getRoom rs i = Some room"
  shows "\<exists>k. indexOf (map r_id rs) i = Some k \<and> k < length rs \<and> rs ! k = room \<and> r_id room = i"
proof -
  from assms obtain k where k: "indexOf (map r_id rs) i = Some k"
    by (cases "indexOf (map r_id rs) i") (simp_all add: getRoom_def atIndex_def)
  from indexOf_Some [OF k] have lt: "k < length rs" and id: "r_id (rs ! k) = i" by auto
  from assms k lt have "rs ! k = room" by (simp add: getRoom_def atIndex_def jsGet_def)
  with k lt id show ?thesis by auto
qed

lemma getRoom_putRoom:
  assumes "getRoom (rooms game) i = Some room" and "r_id room' = r_id room"
  shows "getRoom (rooms (putRoom game i room')) i = Some room'"
    and "sockets (putRoom game i room') = sockets game"
    and "gamePlayers (putRoom game i room') = gamePlayers game"
proof -
  from getRoom_Some [OF assms(1)] obtain k where k: "indexOf (map r_id (rooms game)) i = Some k"
    "k < length (rooms game)" "rooms game ! k = room" "r_id room = i" by blast
  have "map r_id ((rooms game)[k := room']) = map r_id (rooms game)"
    using k assms(2) by (simp add: map_update list_update_same_conv)
  then show "getRoom (rooms (putRoom game i room')) i = Some room'"
    using k by (simp add: putRoom_def getRoom_def atIndex_def jsGet_def)
  show "sockets (putRoom game i room') = sockets game"
    by (simp add: putRoom_def split: option.splits)
  show "gamePlayers (putRoom game i room') = gamePlayers game"
    by (simp add: putRoom_def split: option.splits)
qed

lemma putRoom_same:
  assumes "getRoom (rooms game) i = Some room"
  shows "putRoom game i room = game"
proof -
  from getRoom_Some [OF assms] obtain k where k: "indexOf (map r_id (rooms game)) i = Some k"
    "k < length (rooms game)" "rooms game ! k = room" by blast
  then show ?thesis by (simp add: putRoom_def list_update_same_conv)
qed

lemma emitAll_ok:
  assumes "\<forall>x\<in>set xs. \<exists>s e p. x = (Some s, e, Inr p)"
  shows "\<exists>es. emitAll xs = Inr es \<and> length es = length xs"
  using assms
proof (induction xs)
  case Nil
  then show ?case by simp
next
  case (Cons x xs)
  then obtain s e p where x: "x = (Some s, e, Inr p)" by auto
  from Cons obtain es where "emitAll xs = Inr es" "length es = length xs" by auto
  with x show ?case by simp
qed

lemma socketOf_registered:
  assumes "player \<in> set (gamePlayers game)" "length (gamePlayers game) \<le> length (sockets game)"
  shows "\<exists>s. socketOf game player = Some s"
proof -
  have "p_id player \<in> set (map p_id (gamePlayers game))" using assms(1) by simp
  from indexOf_mem [OF this] obtain k where
    "k < length (gamePlayers game)" "indexOf (map p_id (gamePlayers game)) (p_id player) = Some k"
    by auto
  with assms(2) show ?thesis
    by (simp add: socketOf_def getPlayerIndex_def atIndex_def jsGet_def)
qed


section \<open>Properties of the redaction functions\<close>

lemma cutPlayerCards_idem: "cutPlayerCards (cutPlayerCards p) = cutPlayerCards p"
  by (cases "playerStatus p") (simp_all add: cutPlayerCards_def)

lemma cutPlayersCards_view: "cutPlayersCards (viewRoom r) \<noteq> Inl TypeError"
  by (simp add: cutPlayersCards_def viewRoom_def)

text \<open>
  C9. Each redaction function, applied to its own result, gives that result again:
  for every room object, \<open>cutPlayers\<close> and \<open>cutRoomCards\<close> applied twice equal one
  application, and so does \<open>cutPlayersCards\<close>, which returns (does not throw) on every
  object that has its \<^verbatim>\<open>players\<close>, in particular on every room of the server state.
\<close>

theorem redaction_idempotent:
  fixes room :: RoomV and r :: RoomS
  shows "andThen (cutPlayersCards room) cutPlayersCards = cutPlayersCards room
       \<and> (\<exists>v. cutPlayersCards (viewRoom r) = Inr v \<and> cutPlayersCards v = Inr v)
       \<and> cutRoomCards (cutRoomCards room) = cutRoomCards room
       \<and> cutPlayers (cutPlayers room) = cutPlayers room"
proof -
  have a: "andThen (cutPlayersCards room) cutPlayersCards = cutPlayersCards room"
    by (cases "players room")
       (simp_all add: andThen_def cutPlayersCards_def cutPlayerCards_idem)
  have b: "\<exists>v. cutPlayersCards (viewRoom r) = Inr v \<and> cutPlayersCards v = Inr v"
    by (simp add: cutPlayersCards_def viewRoom_def cutPlayerCards_idem)
  have c: "cutRoomCards (cutRoomCards room) = cutRoomCards room"
    by (simp add: cutRoomCards_def split: option.splits)
  have d: "cutPlayers (cutPlayers room) = cutPlayers room"
    by (simp add: cutPlayers_def)
  from a b c d show ?thesis by blast
qed

section \<open>Properties of the turn order\<close>

lemma nextTurnLoop_finds:
  assumes n: "numberOfPlayers room = length (players room)"
  shows "(\<forall>j<k. \<not> eligible room ((turn + j + 1) mod length (players room))) \<Longrightarrow>
         eligible room ((turn + k + 1) mod length (players room)) \<Longrightarrow>
         0 < length (players room) \<Longrightarrow>
         nextTurnLoop room turn = Some (Inr ((turn + k + 1) mod length (players room)))"
proof (induction k arbitrary: turn)
  case 0
  then show ?case
    by (subst nextTurnLoop.simps)
       (auto simp: n jsGet_def eligible_def split: option.splits)
next
  case (Suc k)
  let ?n = "length (players room)"
  let ?t = "(turn + 1) mod ?n"
  have skip: "\<not> eligible room ?t" using Suc.prems(1) by force
  have shift: "(?t + j + 1) mod ?n = (turn + Suc j + 1) mod ?n" for j
    by (metis (no_types, opaque_lifting) Suc_eq_plus1 add.assoc add.commute mod_add_left_eq)
  have "\<forall>j<k. \<not> eligible room ((?t + j + 1) mod ?n)"
    using Suc.prems(1) shift by auto
  moreover have "eligible room ((?t + k + 1) mod ?n)"
    using Suc.prems(2) shift by simp
  ultimately have ih: "nextTurnLoop room ?t = Some (Inr ((?t + k + 1) mod ?n))"
    using Suc.IH Suc.prems(3) by blast
  have "nextTurnLoop room turn = nextTurnLoop room ?t"
    using skip Suc.prems(3)
    by (subst nextTurnLoop.simps)
       (auto simp: n jsGet_def eligible_def split: option.splits)
  with ih shift show ?case by simp
qed

lemma stepBack_one:
  assumes n: "0 < n"
  shows "(turn + n - 1) mod n = stepBack n turn 1"
proof -
  have "int ((turn + n - 1) mod n) = (int turn - 1 + int n) mod int n"
    using n by (simp add: zmod_int of_nat_diff algebra_simps)
  also have "\<dots> = (int turn - 1) mod int n" by simp
  finally show ?thesis by (simp add: stepBack_def)
qed

lemma stepBack_stepBack:
  assumes n: "0 < n"
  shows "stepBack n (stepBack n turn 1) k = stepBack n turn (Suc k)"
proof -
  have "(int (stepBack n turn 1) - int k) mod int n = ((int turn - 1) mod int n - int k) mod int n"
    using n by (simp add: stepBack_def)
  also have "\<dots> = (int turn - 1 - int k) mod int n"
    by (simp add: mod_diff_left_eq)
  also have "\<dots> = (int turn - int (Suc k)) mod int n"
    by (simp add: algebra_simps)
  finally show ?thesis by (simp add: stepBack_def)
qed

lemma stepBack_less: "0 < n \<Longrightarrow> stepBack n turn k < n"
  unfolding stepBack_def by (simp add: nat_less_iff)

lemma fwd_reach:
  fixes e n turn :: nat
  assumes "e < n"
  shows "\<exists>k<n. (turn + k + 1) mod n = e"
proof -
  let ?k = "(e + n - 1 + (n - turn mod n)) mod n"
  have "?k < n" using assms by simp
  moreover have "(turn + ?k + 1) mod n = e"
  proof -
    have "(turn + ?k) mod n = (turn mod n + (e + n - 1 + (n - turn mod n))) mod n"
      by (rule mod_add_cong) simp_all
    then have "(turn + ?k + 1) mod n = (turn mod n + (e + n - 1 + (n - turn mod n)) + 1) mod n"
      by (rule mod_add_cong) simp
    also have "turn mod n + (e + n - 1 + (n - turn mod n)) + 1 = e + n + n"
    proof -
      have "turn mod n < n" using assms by simp
      then show ?thesis using assms by linarith
    qed
    also have "(e + n + n) mod n = e" using assms by simp
    finally show ?thesis .
  qed
  ultimately show ?thesis by blast
qed

lemma stepBack_reach:
  assumes "e < n"
  shows "\<exists>k<n. stepBack n turn (Suc k) = e"
proof -
  let ?k = "nat ((int turn - int e - 1) mod int n)"
  have n: "0 < n" using assms by simp
  have "?k < n" using n by (simp add: nat_less_iff)
  moreover have "stepBack n turn (Suc ?k) = e"
  proof -
    have "(int turn - int (Suc ?k)) mod int n = (int turn - 1 - ((int turn - int e - 1) mod int n)) mod int n"
      using n by (simp add: algebra_simps)
    also have "\<dots> = (int turn - 1 - (int turn - int e - 1)) mod int n"
      by (simp add: mod_diff_right_eq)
    also have "\<dots> = int e" using assms by simp
    finally show ?thesis by (simp add: stepBack_def)
  qed
  ultimately show ?thesis by blast
qed

lemma stepBack_one':
  "0 < n \<Longrightarrow> (turn + n - Suc 0) mod n = stepBack n turn (Suc 0)"
  using stepBack_one [of n turn] by simp

lemma stepBack_stepBack':
  "0 < n \<Longrightarrow> stepBack n (stepBack n turn (Suc 0)) k = stepBack n turn (Suc k)"
  using stepBack_stepBack [of n turn k] by simp

lemma prevTurnLoop_finds:
  assumes n: "numberOfPlayers room = length (players room)"
  shows "(\<forall>j<k. \<not> eligible room (stepBack (length (players room)) turn (Suc j))) \<Longrightarrow>
         eligible room (stepBack (length (players room)) turn (Suc k)) \<Longrightarrow>
         0 < length (players room) \<Longrightarrow>
         prevTurnLoop room turn = Some (Inr (stepBack (length (players room)) turn (Suc k)))"
proof (induction k arbitrary: turn)
  case 0
  then show ?case
    by (subst prevTurnLoop.simps)
       (auto simp: n jsGet_def eligible_def stepBack_one' stepBack_less split: option.splits)
next
  case (Suc k)
  let ?n = "length (players room)"
  let ?t = "stepBack ?n turn (Suc 0)"
  have pos: "0 < ?n" by (rule Suc.prems(3))
  have skip: "\<not> eligible room ?t" using Suc.prems(1) by force
  have "\<forall>j<k. \<not> eligible room (stepBack ?n ?t (Suc j))"
    using Suc.prems(1) by (simp add: stepBack_stepBack' [OF pos])
  moreover have "eligible room (stepBack ?n ?t (Suc k))"
    using Suc.prems(2) by (simp add: stepBack_stepBack' [OF pos])
  ultimately have ih: "prevTurnLoop room ?t = Some (Inr (stepBack ?n ?t (Suc k)))"
    using Suc.IH pos by blast
  have "prevTurnLoop room turn = prevTurnLoop room ?t"
    using skip pos
    by (subst prevTurnLoop.simps)
       (auto simp: n jsGet_def eligible_def stepBack_one' stepBack_less split: option.splits)
  with ih show ?case by (simp add: stepBack_stepBack' [OF pos])
qed

lemma least_step:
  fixes P :: "nat \<Rightarrow> bool"
  assumes "\<exists>k<n. P k"
  shows "\<exists>k<n. P k \<and> (\<forall>j<k. \<not> P j)"
proof -
  from assms obtain k0 where k0: "k0 < n" "P k0" by blast
  let ?k = "LEAST k. P k"
  have "P ?k" using k0(2) by (rule LeastI)
  moreover have "?k \<le> k0" using k0(2) by (rule Least_le)
  moreover have "\<forall>j<?k. \<not> P j" using not_less_Least by blast
  ultimately show ?thesis using k0(1) by (meson le_less_trans)
qed

lemma some_eligible:
  assumes "2 \<le> card {i. i < n \<and> eligible room i}"
  shows "\<exists>e<n. eligible room e"
proof -
  from assms have "card {i. i < n \<and> eligible room i} \<noteq> 0" by linarith
  then have "{i. i < n \<and> eligible room i} \<noteq> {}" by (metis card.empty)
  then show ?thesis by blast
qed

text \<open>
  What the two loops do in a room with a round in progress whose seat counter agrees
  with its seat list: whenever at least two seats have a status outside FOLD, BUST and
  ALLIN, \<open>nextTurn\<close> returns the first such seat met when stepping by \<open>+1\<close> modulo the
  seat count from the seat the loop starts at, which is the argument, or \<open>playTurn\<close> when
  the argument is missing or \<open>0\<close>. \<open>prevTurn\<close> does the same with steps of \<open>-1\<close>.
\<close>

lemma turns_from_start:
  assumes gs: "gameStatus room = Some gs"
    and n: "numberOfPlayers room = length (players room)"
    and two: "2 \<le> card {i. i < length (players room) \<and> eligible room i}"
  shows "(\<exists>t k. nextTurn room turn = Some (Inr t)
            \<and> t < length (players room) \<and> eligible room t
            \<and> t = (startTurn gs turn + k + 1) mod length (players room)
            \<and> (\<forall>j<k. \<not> eligible room ((startTurn gs turn + j + 1) mod length (players room))))
       \<and> (\<exists>t k. prevTurn room turn = Some (Inr t)
            \<and> t < length (players room) \<and> eligible room t
            \<and> int t = (int (startTurn gs turn) - int k - 1) mod int (length (players room))
            \<and> (\<forall>j<k. \<not> eligible room
                  (nat ((int (startTurn gs turn) - int j - 1) mod int (length (players room))))))"
proof -
  let ?n = "length (players room)"
  let ?s = "startTurn gs turn"
  from some_eligible [OF two] obtain e where e: "e < ?n" "eligible room e" by blast
  then have pos: "0 < ?n" by (cases "players room") simp_all
  have "\<exists>k<?n. eligible room ((?s + k + 1) mod ?n)"
    using fwd_reach [OF e(1), of ?s] e(2) by auto
  from least_step [OF this] obtain k where k:
    "eligible room ((?s + k + 1) mod ?n)" "\<forall>j<k. \<not> eligible room ((?s + j + 1) mod ?n)"
    by blast
  have "nextTurn room turn = Some (Inr ((?s + k + 1) mod ?n))"
    using nextTurnLoop_finds [OF n k(2) k(1) pos] gs by (simp add: nextTurn_def)
  then have fwd: "\<exists>t k. nextTurn room turn = Some (Inr t)
            \<and> t < ?n \<and> eligible room t \<and> t = (?s + k + 1) mod ?n
            \<and> (\<forall>j<k. \<not> eligible room ((?s + j + 1) mod ?n))"
    using k pos by auto
  have "\<exists>k<?n. eligible room (stepBack ?n ?s (Suc k))"
    using stepBack_reach [OF e(1), of ?s] e(2) by auto
  from least_step [OF this] obtain m where m:
    "eligible room (stepBack ?n ?s (Suc m))" "\<forall>j<m. \<not> eligible room (stepBack ?n ?s (Suc j))"
    by blast
  have p: "prevTurn room turn = Some (Inr (stepBack ?n ?s (Suc m)))"
    using prevTurnLoop_finds [OF n m(2) m(1) pos] gs by (simp add: prevTurn_def)
  have sb: "stepBack ?n ?s (Suc j) = nat ((int ?s - int j - 1) mod int ?n)" for j
    by (simp add: stepBack_def algebra_simps)
  have "int (stepBack ?n ?s (Suc m)) = (int ?s - int m - 1) mod int ?n"
    using pos by (simp add: sb)
  with p m pos have bwd: "\<exists>t k. prevTurn room turn = Some (Inr t)
            \<and> t < ?n \<and> eligible room t
            \<and> int t = (int ?s - int k - 1) mod int ?n
            \<and> (\<forall>j<k. \<not> eligible room (nat ((int ?s - int j - 1) mod int ?n)))"
    using stepBack_less [OF pos, of ?s "Suc m"] sb by metis
  from fwd bwd show ?thesis by blast
qed

text \<open>
  C4. The claim fails for the seat \<open>0\<close>. \<open>threeRoom NONE\<close> has the seats, the bets
  and the turn that \<open>startNewRound\<close> leaves when seat 0 is the blind (the hole cards are
  left out): three seats, none of them folded, bust or all in, and seat 1 in turn. Asked for the seat after seat 0, as \<open>dealCards\<close> asks
  with \<^verbatim>\<open>nextTurn(room, gameStatus.blindTurn)\<close>, \<open>nextTurn\<close> takes \<open>0\<close> for a missing
  argument, starts from \<^verbatim>\<open>playTurn\<close> and returns seat 2: it has stepped over seat 1,
  which is eligible.
\<close>

theorem nextTurn_of_seat_zero:
  "map_option playTurn (gameStatus (threeRoom NONE)) = Some 1
   \<and> numberOfPlayers (threeRoom NONE) = 3 \<and> length (players (threeRoom NONE)) = 3
   \<and> eligible (threeRoom NONE) 0 \<and> eligible (threeRoom NONE) 1 \<and> eligible (threeRoom NONE) 2
   \<and> nextTurn (threeRoom NONE) (Some 0) = Some (Inr 2)"
  by (simp add: nextTurn_def startTurn_def nextTurnLoop.simps eligible_def threeRoom_def
      room_defs)
section \<open>Properties of the shuffle\<close>

lemma coprime_47_52: "coprime (47::nat) 52"
  by (simp add: coprime_iff_gcd_eq_1 gcd_non_0_nat)

lemma shuffleStep_mset:
  assumes "0 < length xs"
  shows "mset (shuffleStep (length xs) rnd i xs) = mset xs"
    and "length (shuffleStep (length xs) rnd i xs) = length xs"
proof -
  let ?a = "rand (length xs) (rnd (2 * i))"
  let ?b = "rand (length xs) (rnd (2 * i + 1))"
  have a: "?a < length xs" and b: "?b < length xs"
    using assms by (simp_all add: rand_def)
  show "mset (shuffleStep (length xs) rnd i xs) = mset xs"
    using mset_swap [OF b a] by (simp add: shuffleStep_def Let_def)
  show "length (shuffleStep (length xs) rnd i xs) = length xs"
    by (simp add: shuffleStep_def Let_def)
qed

lemma shuffle_fold_mset:
  "0 < n \<Longrightarrow> length xs = n \<Longrightarrow>
   mset (fold (shuffleStep n rnd) is xs) = mset xs \<and> length (fold (shuffleStep n rnd) is xs) = n"
proof (induction "is" arbitrary: xs)
  case Nil
  then show ?case by simp
next
  case (Cons i "is")
  have "mset (shuffleStep n rnd i xs) = mset xs" "length (shuffleStep n rnd i xs) = n"
    using shuffleStep_mset [of xs rnd i] Cons.prems by simp_all
  with Cons.IH [of "shuffleStep n rnd i xs"] Cons.prems(1) show ?case by simp
qed

lemma shuffled_deck:
  "mset (shuffleCards allCards rnd) = mset allCards
   \<and> length (shuffleCards allCards rnd) = 52
   \<and> distinct (shuffleCards allCards rnd)
   \<and> set (shuffleCards allCards rnd) = {0 ..< 52}"
proof -
  have m: "mset (shuffleCards allCards rnd) = mset allCards"
    and l: "length (shuffleCards allCards rnd) = 52"
    using shuffle_fold_mset [of 52 allCards rnd "[0 ..< 1000]"]
    by (simp_all add: shuffleCards_def allCards_def)
  have "distinct allCards" by (simp add: allCards_def)
  with m have d: "distinct (shuffleCards allCards rnd)"
    by (metis mset_eq_imp_distinct_iff)
  have "set (shuffleCards allCards rnd) = set allCards"
    using m by (rule mset_eq_setD)
  then have s: "set (shuffleCards allCards rnd) = {0 ..< 52}"
    by (simp add: allCards_def)
  from m l d s show ?thesis by blast
qed

text \<open>
  C8 (as amended). Whatever the draws, \<open>shuffleCards\<close> returns a permutation of the 52
  card ids: a list of length 52, without repetition, holding exactly \<open>0 .. 51\<close>.
\<close>

theorem shuffleCards_permutation:
  "mset (shuffleCards allCards rnd) = mset allCards
   \<and> length (shuffleCards allCards rnd) = 52
   \<and> distinct (shuffleCards allCards rnd)
   \<and> set (shuffleCards allCards rnd) = {0 ..< 52}"
  by (rule shuffled_deck)

theorem shuffleCards_permutation_witness:
  "mset (shuffleCards allCards (\<lambda>k. 0)) = mset allCards"
  using shuffleCards_permutation [of "\<lambda>k. 0"] by blast

lemma draws_finite: "finite draws"
  unfolding draws_def by (rule finite_PiE) simp_all

lemma draws_card: "\<exists>k. card draws = 52 ^ k"
proof -
  have "card draws = (\<Prod>i\<in>{0 ..< 2000::nat}. card {0 ..< 52::nat})"
    unfolding draws_def by (rule card_PiE) simp
  also have "\<dots> = card {0 ..< 52::nat} ^ card {0 ..< 2000::nat}"
    by (rule prod_constant)
  also have "card {0 ..< 52::nat} = 52" by simp
  finally show ?thesis by blast
qed

lemma orderings_eq:
  "orderings = {xs. length xs = 52 \<and> distinct xs \<and> set xs \<subseteq> {0 ..< 52}}"
proof (intro equalityI subsetI)
  fix p :: "nat list"
  assume "p \<in> orderings"
  then have m: "mset p = mset [0 ..< 52]" by (simp add: orderings_def allCards_def)
  have "length p = 52" using mset_eq_length [OF m] by simp
  moreover have "distinct p" using m by (metis distinct_upt mset_eq_imp_distinct_iff)
  moreover have "set p = {0 ..< 52}" using mset_eq_setD [OF m] by simp
  ultimately show "p \<in> {xs. length xs = 52 \<and> distinct xs \<and> set xs \<subseteq> {0 ..< 52}}" by simp
next
  fix p :: "nat list"
  assume "p \<in> {xs. length xs = 52 \<and> distinct xs \<and> set xs \<subseteq> {0 ..< 52}}"
  then have l: "length p = 52" and d: "distinct p" and s: "set p \<subseteq> {0 ..< 52}" by simp_all
  have "card (set p) = 52" using d l by (simp add: distinct_card)
  then have "set p = {0 ..< 52}" using s by (simp add: card_subset_eq)
  then have "set p = set [0 ..< 52]" by simp
  then have "mset p = mset [0 ..< 52]"
    using d by (metis distinct_upt set_eq_iff_mset_eq_distinct)
  then show "p \<in> orderings" by (simp add: orderings_def allCards_def)
qed

lemma orderings_card: "finite orderings" "47 dvd card orderings"
proof -
  have fin: "finite {0 ..< (52::nat)}" by simp
  show "finite orderings"
    unfolding orderings_eq
    by (rule finite_subset [OF _ finite_lists_length_eq [OF fin, of 52]]) auto
  have "card orderings = \<Prod>{card {0 ..< (52::nat)} - 52 + 1 .. card {0 ..< (52::nat)}}"
    unfolding orderings_eq by (rule card_lists_distinct_length_eq) simp_all
  then have "card orderings = \<Prod>{1 .. (52::nat)}" by simp
  moreover have "(47::nat) dvd \<Prod>{1 .. (52::nat)}"
    using dvd_prodI [of "{1 .. (52::nat)}" 47 "\<lambda>x. x"] by simp
  ultimately show "47 dvd card orderings" by simp
qed

text \<open>
  The claim C8 as stated fails: the 1000 swaps of two drawn positions are no
  Fisher-Yates shuffle and cannot make the orderings equally likely. There are
  \<open>52 ^ 2000\<close> sequences of draws, a number that 47 does not divide, while the number of
  orderings, \<open>52!\<close>, is a multiple of 47: the sequences cannot be shared out evenly.
\<close>

theorem shuffleCards_not_uniform:
  "\<not> (\<forall>p q. p \<in> orderings \<and> q \<in> orderings \<longrightarrow> card (drawsGiving p) = card (drawsGiving q))"
proof
  assume u: "\<forall>p q. p \<in> orderings \<and> q \<in> orderings \<longrightarrow> card (drawsGiving p) = card (drawsGiving q)"
  have a: "allCards \<in> orderings" by (simp add: orderings_def)
  have same: "card (drawsGiving p) = card (drawsGiving allCards)" if "p \<in> orderings" for p
    using u a that by blast
  have cover: "draws = (\<Union>p\<in>orderings. drawsGiving p)"
    using shuffled_deck by (auto simp: drawsGiving_def orderings_def)
  have disj: "\<forall>p\<in>orderings. \<forall>q\<in>orderings. p \<noteq> q \<longrightarrow> drawsGiving p \<inter> drawsGiving q = {}"
    by (auto simp: drawsGiving_def)
  have fin: "\<forall>p\<in>orderings. finite (drawsGiving p)"
    using draws_finite by (simp add: drawsGiving_def)
  have "card draws = (\<Sum>p\<in>orderings. card (drawsGiving p))"
    unfolding cover by (rule card_UN_disjoint [OF orderings_card(1) fin disj])
  also have "\<dots> = (\<Sum>p\<in>orderings. card (drawsGiving allCards))"
    by (rule sum.cong) (simp_all add: same)
  also have "\<dots> = card orderings * card (drawsGiving allCards)" by simp
  finally have eq: "card draws = card orderings * card (drawsGiving allCards)" .
  have "card orderings dvd card draws" by (simp only: eq dvd_triv_left)
  moreover obtain k where k: "card draws = 52 ^ k" using draws_card by blast
  ultimately have "card orderings dvd (52::nat) ^ k" by simp
  with orderings_card(2) have "(47::nat) dvd 52 ^ k" by (rule dvd_trans)
  moreover have "coprime (47::nat) (52 ^ k)"
    using coprime_47_52 by simp
  ultimately have "(47::nat) dvd 1"
    by (metis coprime_absorb_left is_unit_gcd)
  then show False by simp
qed

section \<open>Properties of joining a room\<close>

lemma joinMessages_ok:
  assumes len: "length (gamePlayers game1) \<le> length (sockets game1)"
  shows "\<exists>es. emitAll (joinMessages game1 room1) = Inr es \<and> length es = length (gamePlayers game1)"
proof -
  have "\<forall>x\<in>set (joinMessages game1 room1). \<exists>s e p. x = (Some s, e, Inr p)"
  proof
    fix x assume "x \<in> set (joinMessages game1 room1)"
    then obtain player where p: "player \<in> set (gamePlayers game1)"
      and x: "x = (if getPlayerIndex (players room1) (p_id player) = None
                 then (socketOf game1 player, ''updatedRoom'',
                       Inr (Payload (cutPlayers (viewRoom room1)) None))
                 else (socketOf game1 player, ''joinedPlayer'',
                       Inr (Payload (viewRoom room1) None)))"
      unfolding joinMessages_def by (elim imageE | simp only: set_map)+
    from socketOf_registered [OF p len] obtain s where "socketOf game1 player = Some s" by blast
    with x show "\<exists>s e p. x = (Some s, e, Inr p)" by (cases "getPlayerIndex (players room1) (p_id player) = None") simp_all
  qed
  from emitAll_ok [OF this] show ?thesis by (simp add: joinMessages_def)
qed

lemma joinRoom_accept:
  assumes room: "getRoom (rooms game) i = Some room"
    and cap: "numberOfPlayers room < 10"
    and idx: "getIndex (sockets game) socketId = Some index"
    and np: "jsGet (gamePlayers game) index = Some newPlayer"
    and notin: "indexOf (map p_id (players room)) (p_id newPlayer) = None"
  shows "joinRoom game socketId i =
     (let joined = newPlayer\<lparr>roomId := Some i\<rparr>;
          room1 = room\<lparr>numberOfPlayers := numberOfPlayers room + 1,
                       players := players room @ [joined]\<rparr>;
          game1 = (putRoom game i room1)\<lparr>gamePlayers := (gamePlayers game)[index := joined]\<rparr>
      in case emitAll (joinMessages game1 room1) of
           Inl e \<Rightarrow> Inl e
         | Inr es \<Rightarrow> Inr (game1, es))"
  unfolding joinRoom_def
  using cap by (simp only: room idx np notin option.case if_False if_True not_le [symmetric] not_not refl simp_thms)


text \<open>
  What \<open>joinRoom\<close> does on a room that exists: when the counter \<^verbatim>\<open>numberOfPlayers\<close> of
  the room is 10 or more, or when the player of the calling socket is already seated in
  it, the call returns with the server state unchanged and nothing emitted. Otherwise
  (a counter below 10, a registered player who is not seated, and a socket for every
  registered player) the call returns, the player is appended to the seat list of the
  room with its \<open>roomId\<close> set, the counter grows by exactly 1, and every registered
  player is sent one message.
\<close>

lemma joinRoom_cases:
  assumes room: "getRoom (rooms game) i = Some room"
  shows "(numberOfPlayers room \<ge> 10 \<longrightarrow> joinRoom game socketId i = Inr (game, []))
       \<and> (\<forall>index newPlayer.
             getIndex (sockets game) socketId = Some index
             \<and> jsGet (gamePlayers game) index = Some newPlayer
             \<and> p_id newPlayer \<in> p_id ` set (players room)
             \<longrightarrow> joinRoom game socketId i = Inr (game, []))
       \<and> (\<forall>index newPlayer.
             numberOfPlayers room < 10
             \<and> getIndex (sockets game) socketId = Some index
             \<and> jsGet (gamePlayers game) index = Some newPlayer
             \<and> p_id newPlayer \<notin> p_id ` set (players room)
             \<and> length (gamePlayers game) \<le> length (sockets game)
             \<longrightarrow> (\<exists>game' es. joinRoom game socketId i = Inr (game', es)
                    \<and> length es = length (gamePlayers game)
                    \<and> getRoom (rooms game') i =
                        Some (room\<lparr>numberOfPlayers := numberOfPlayers room + 1,
                                   players := players room @ [newPlayer\<lparr>roomId := Some i\<rparr>]\<rparr>)))"
proof (intro conjI allI impI)
  assume "numberOfPlayers room \<ge> 10"
  then show "joinRoom game socketId i = Inr (game, [])"
    using room by (simp add: joinRoom_def)
next
  fix index newPlayer
  assume a: "getIndex (sockets game) socketId = Some index
             \<and> jsGet (gamePlayers game) index = Some newPlayer
             \<and> p_id newPlayer \<in> p_id ` set (players room)"
  then have "indexOf (map p_id (players room)) (p_id newPlayer) \<noteq> None"
    by (simp add: indexOf_None)
  with a room show "joinRoom game socketId i = Inr (game, [])"
    by (simp add: joinRoom_def)
next
  fix index newPlayer
  assume a: "numberOfPlayers room < 10
             \<and> getIndex (sockets game) socketId = Some index
             \<and> jsGet (gamePlayers game) index = Some newPlayer
             \<and> p_id newPlayer \<notin> p_id ` set (players room)
             \<and> length (gamePlayers game) \<le> length (sockets game)"
  define room1 where "room1 = room\<lparr>numberOfPlayers := numberOfPlayers room + 1,
                     players := players room @ [newPlayer\<lparr>roomId := Some i\<rparr>]\<rparr>"
  define game1 where "game1 = (putRoom game i room1)
      \<lparr>gamePlayers := (gamePlayers game)[index := newPlayer\<lparr>roomId := Some i\<rparr>]\<rparr>"
  have notin: "indexOf (map p_id (players room)) (p_id newPlayer) = None"
    using a by (simp add: indexOf_None)
  have id1: "r_id room1 = r_id room" by (simp add: room1_def)
  have len: "length (gamePlayers game1) \<le> length (sockets game1)"
    using a getRoom_putRoom(2) [OF room id1] by (simp add: game1_def)
  from joinMessages_ok [OF len, of room1] obtain es where
    es: "emitAll (joinMessages game1 room1) = Inr es" "length es = length (gamePlayers game1)"
    by blast
  have j: "joinRoom game socketId i = Inr (game1, es)"
    using joinRoom_accept [OF room _ _ _ notin, of socketId index] a es(1)
    unfolding room1_def game1_def Let_def by simp
  have "getRoom (rooms game1) i = Some room1"
    using getRoom_putRoom(1) [OF room id1] by (simp add: game1_def)
  moreover have "length es = length (gamePlayers game)"
    using es(2) by (simp add: game1_def)
  ultimately show "\<exists>game' es. joinRoom game socketId i = Inr (game', es)
                    \<and> length es = length (gamePlayers game)
                    \<and> getRoom (rooms game') i =
                        Some (room\<lparr>numberOfPlayers := numberOfPlayers room + 1,
                                   players := players room @ [newPlayer\<lparr>roomId := Some i\<rparr>]\<rparr>)"
    using j unfolding room1_def by blast
qed

text \<open>
  C10. The test of \<open>joinRoom\<close> reads the counter, not the seat list, and the counter
  falls behind it: \<^verbatim>\<open>leaveRoom\<close> decrements it on every call of a player whose
  \<^verbatim>\<open>roomId\<close> is set, and never clears that \<^verbatim>\<open>roomId\<close>. In \<open>crowdGame\<close> the room has
  ten seated players and counts nine; the eleventh player joins it: the call seats the
  player and sends a message to each of the eleven registered players.
\<close>

theorem joinRoom_full_room:
  "getRoom (rooms crowdGame) ''room'' = Some crowdRoom
   \<and> length (players crowdRoom) = 10 \<and> numberOfPlayers crowdRoom = 9
   \<and> map_option (\<lambda>room'. (length (players room'), numberOfPlayers room'))
         (roomJoined (joinRoom crowdGame ''sk'' ''room'') ''room'') = Some (11, 10)
   \<and> map_option length (emitted (joinRoom crowdGame ''sk'' ''room'')) = Some 11"
proof -
  have r: "getRoom (rooms crowdGame) ''room'' = Some crowdRoom"
    by (simp add: getRoom_def atIndex_def crowdGame_def crowdRoom_def mkRoom_def)
  have l: "length (players crowdRoom) = 10" "numberOfPlayers crowdRoom = 9"
    by (simp_all add: crowdRoom_def crowdSeats_def crowd_def mkRoom_def)
  have pre: "numberOfPlayers crowdRoom < 10
      \<and> getIndex (sockets crowdGame) ''sk'' = Some 10
      \<and> jsGet (gamePlayers crowdGame) 10 = Some (mkPlayer ''k'' 2000 None)
      \<and> p_id (mkPlayer ''k'' 2000 None) \<notin> p_id ` set (players crowdRoom)
      \<and> length (gamePlayers crowdGame) \<le> length (sockets crowdGame)"
    by (simp add: crowdGame_def crowdRoom_def crowdSeats_def crowd_def mkRoom_def mkPlayer_def
        getIndex_def jsGet_def nth_append)
  from joinRoom_cases [OF r, of "''sk''", THEN conjunct2, THEN conjunct2, rule_format, OF pre]
  obtain game' es where j: "joinRoom crowdGame ''sk'' ''room'' = Inr (game', es)"
    and e: "length es = length (gamePlayers crowdGame)"
    and g: "getRoom (rooms game') ''room'' =
             Some (crowdRoom\<lparr>numberOfPlayers := numberOfPlayers crowdRoom + 1,
                     players := players crowdRoom @ [(mkPlayer ''k'' 2000 None)\<lparr>roomId := Some ''room''\<rparr>]\<rparr>)"
    by blast
  have a: "map_option (\<lambda>room'. (length (players room'), numberOfPlayers room'))
         (roomJoined (joinRoom crowdGame ''sk'' ''room'') ''room'') = Some (11, 10)"
    using j g l by (simp add: roomJoined_def)
  have b: "map_option length (emitted (joinRoom crowdGame ''sk'' ''room'')) = Some 11"
    using j e by (simp add: emitted_def crowdGame_def crowdSeats_def crowd_def)
  from r l a b show ?thesis by (intro conjI)
qed
section \<open>Properties of the turn timers\<close>

lemma turnTimeout_rule:
  assumes "turnTimeout wait now room = Some (player, s)"
  shows "\<exists>gs st. gameStatus room = Some gs \<and> playerStatus player = Some st
           \<and> s = (if subTotalBetAmount st = currentBetAmount gs then CHECK else FOLD)"
  using assms by (auto simp: turnTimeout_def split: option.splits if_splits)

lemma startNewRound_bustRoom:
  "startNewRound (\<lambda>k. 0) 0 bustRoom =
     Some (Inr (afterDeal, [SetTimeout RoundStartTimeout ''room'']))"
  unfolding startNewRound_def Let_def shuffleCards_zero
  apply (simp add: bustRoom_def afterDeal_def room_defs rand_def dealHoleCards_def freshStatus_def
      allCards_get upt_conv_Cons)
  apply (simp add: bindR_def postBlind_def prevTurn_def startTurn_def nextTurn_def
      prevTurnLoop.simps nextTurnLoop.simps exact_defs)
  done

text \<open>
  C5. The timer armed by \<open>updateGameStatus\<close> submits CHECK for a seat that has matched
  the bet and FOLD otherwise (\<open>turnTimeout_rule\<close>). The timer armed at the start of a
  round does not: it submits FOLD whatever the seat has bet. In the room \<open>bustRoom\<close> the
  new round leaves seat 0 in turn with its blind of 10 equal to the bet to match (seat 1
  is bust and skipped); when the deadline expires the round-start timer folds seat 0,
  where the other timer would check.
\<close>

theorem roundStart_timer_folds:
  "startNewRound (\<lambda>k. 0) 0 bustRoom =
     Some (Inr (afterDeal, [SetTimeout RoundStartTimeout ''room'']))
   \<and> (\<forall>wait. roundStartTimeout wait wait afterDeal = Some (players afterDeal ! 0, FOLD))
   \<and> (\<forall>wait. turnTimeout wait wait afterDeal = Some (players afterDeal ! 0, CHECK))"
proof -
  note a = startNewRound_bustRoom
  have b: "roundStartTimeout wait wait afterDeal = Some (players afterDeal ! 0, FOLD)" for wait
    by (simp add: roundStartTimeout_def afterDeal_def room_defs)
  have c: "turnTimeout wait wait afterDeal = Some (players afterDeal ! 0, CHECK)" for wait
    by (simp add: turnTimeout_def afterDeal_def room_defs)
  from a b c show ?thesis by blast
qed

theorem roundStart_timer_folds_witness:
  "roundStartTimeout 20000 20000 afterDeal = Some (players afterDeal ! 0, FOLD)
   \<and> turnTimeout 20000 20000 afterDeal = Some (players afterDeal ! 0, CHECK)"
  using roundStart_timer_folds by blast
section \<open>Properties of the settlement\<close>

lemma strength_simps [simp]:
  "strength (Some h # hs) 0 = h_rank h"
  "strength (None # hs) 0 = 0"
  "strength (x # hs) (Suc n) = strength hs n"
  by (simp_all add: strength_def)

lemmas settle_defs = winnersOf_def payWinners_def payWinner_def maxWin_def outcome_def testPlayer_def

lemma settle_cases:
  fixes ha hb hc :: Hand and g :: GameStatus and sc :: "nat list" and uuid :: "nat \<Rightarrow> string"
  defines "result \<equiv> outcome (settleLoop [Some ha, Some hb, None, Some hc] [0, 1, 3]
                       (map (testPlayer sc uuid) [0, 1, 2, 3], g))"
  assumes g: "pot g = 190"
  shows "h_rank ha < h_rank hc \<Longrightarrow> h_rank hb < h_rank hc \<Longrightarrow> h_rank ha < h_rank hb \<Longrightarrow>
           result = ([1000, 1050, 1000, 1140], [0, 50, 0, 140], 0)"
    and "h_rank ha < h_rank hc \<Longrightarrow> h_rank hb < h_rank hc \<Longrightarrow> h_rank hb < h_rank ha \<Longrightarrow>
           result = ([1050, 1000, 1000, 1140], [50, 0, 0, 140], 0)"
    and "h_rank ha < h_rank hc \<Longrightarrow> h_rank hb < h_rank hc \<Longrightarrow> h_rank ha = h_rank hb \<Longrightarrow>
           result = ([1025, 1025, 1000, 1140], [25, 25, 0, 140], 0)"
    and "h_rank ha = h_rank hc \<Longrightarrow> h_rank hb < h_rank hc \<Longrightarrow>
           result = ([1060, 1010, 1000, 1120], [60, 10, 0, 120], 0)"
    and "h_rank ha < h_rank hc \<Longrightarrow> h_rank hb = h_rank hc \<Longrightarrow>
           result = ([1000, 1095, 1000, 1095], [0, 95, 0, 95], 0)"
    and "h_rank ha = h_rank hc \<Longrightarrow> h_rank hb = h_rank hc \<Longrightarrow>
           result = ([1040, 1075, 1000, 1075], [40, 75, 0, 75], 0)"
  using g unfolding result_def
  by (simp_all add: settleLoop.simps settle_defs numeral_3_eq_3)


lemma test_hands:
  "handsOf solve (players (testRoom rnd uuid)) (testStatus (shuffleCards allCards rnd)) =
     [Some (solve (map cardString (deck (the (playerStatus (testPlayer (shuffleCards allCards rnd) uuid 0)))
                     @ board (testStatus (shuffleCards allCards rnd))))),
      Some (solve (map cardString (deck (the (playerStatus (testPlayer (shuffleCards allCards rnd) uuid 1)))
                     @ board (testStatus (shuffleCards allCards rnd))))),
      None,
      Some (solve (map cardString (deck (the (playerStatus (testPlayer (shuffleCards allCards rnd) uuid 3)))
                     @ board (testStatus (shuffleCards allCards rnd)))))]"
  by (simp add: handsOf_def testRoom_def testPlayer_def)

lemma settle_outcome:
  assumes h: "handsOf solve (players room) g = [Some h0, Some h1, None, Some h3]"
    and o: "outcome (settleLoop [Some h0, Some h1, None, Some h3] [0, 1, 3] (players room, g))
            = ([b0, b1, b2, b3], [w0, w1, w2, w3], p)"
  shows "map balance (players (settle solve room g)) = [b0, b1, b2, b3]"
    and "winOf (settle solve room g) 0 = w0" and "winOf (settle solve room g) 1 = w1"
    and "winOf (settle solve room g) 2 = w2" and "winOf (settle solve room g) 3 = w3"
    and "map_option pot (gameStatus (settle solve room g)) = Some p"
proof -
  have sub: "filter (\<lambda>i. [Some h0, Some h1, None, Some h3] ! i \<noteq> None)
                [0 ..< length [Some h0, Some h1, None, Some h3]] = [0, 1, 3]"
    by (simp add: upt_conv_Cons)
  define s where "s = settleLoop [Some h0, Some h1, None, Some h3] [0, 1, 3] (players room, g)"
  have st: "settle solve room g
      = room\<lparr>players := fst s, gameStatus := Some ((snd s)\<lparr>roundFinished := True\<rparr>)\<rparr>"
    unfolding settle_def Let_def h sub s_def by (rule refl)
  from o have b: "map balance (fst s) = [b0, b1, b2, b3]"
    and w: "map (\<lambda>p. case playerStatus p of None \<Rightarrow> 0 | Some st \<Rightarrow> winAmount st) (fst s)
            = [w0, w1, w2, w3]"
    and p: "pot (snd s) = p"
    by (simp_all add: outcome_def s_def)
  show "map balance (players (settle solve room g)) = [b0, b1, b2, b3]"
    by (simp add: st b)
  from w obtain x0 x1 x2 x3 where xs: "fst s = [x0, x1, x2, x3]"
    by (auto simp: map_eq_Cons_conv)
  with w show "winOf (settle solve room g) 0 = w0" "winOf (settle solve room g) 1 = w1"
    "winOf (settle solve room g) 2 = w2" "winOf (settle solve room g) 3 = w3"
    by (simp_all add: st winOf_def numeral_3_eq_3)
  show "map_option pot (gameStatus (settle solve room g)) = Some p"
    by (simp add: st p)
qed

text \<open>
  On the configuration of \<open>test\<close> every number the settlement computes is a whole number
  far below \<open>2 ^ 53\<close>, so the guard of \<open>checkWinning\<close> lets the settlement through.
\<close>

lemma exact_cases:
  fixes ha hb hc :: Hand and g :: GameStatus and sc :: "nat list" and uuid :: "nat \<Rightarrow> string"
  defines "ok \<equiv> exactLoop [Some ha, Some hb, None, Some hc] [0, 1, 3]
                       (map (testPlayer sc uuid) [0, 1, 2, 3], g)"
  assumes g: "pot g = 190"
  shows "h_rank ha < h_rank hc \<Longrightarrow> h_rank hb < h_rank hc \<Longrightarrow> h_rank ha < h_rank hb \<Longrightarrow> ok"
    and "h_rank ha < h_rank hc \<Longrightarrow> h_rank hb < h_rank hc \<Longrightarrow> h_rank hb < h_rank ha \<Longrightarrow> ok"
    and "h_rank ha < h_rank hc \<Longrightarrow> h_rank hb < h_rank hc \<Longrightarrow> h_rank ha = h_rank hb \<Longrightarrow> ok"
    and "h_rank ha = h_rank hc \<Longrightarrow> h_rank hb < h_rank hc \<Longrightarrow> ok"
    and "h_rank ha < h_rank hc \<Longrightarrow> h_rank hb = h_rank hc \<Longrightarrow> ok"
    and "h_rank ha = h_rank hc \<Longrightarrow> h_rank hb = h_rank hc \<Longrightarrow> ok"
  using g unfolding ok_def
  by (simp_all add: exactLoop.simps settle_defs exactPay_def winAddends_def exact_def
      numeral_3_eq_3 upt_conv_Cons)

lemma test_exact:
  fixes solve :: Solver and rnd :: "nat \<Rightarrow> nat" and uuid :: "nat \<Rightarrow> string"
  assumes best: "testRank solve rnd uuid 0 \<le> testRank solve rnd uuid 3"
                "testRank solve rnd uuid 1 \<le> testRank solve rnd uuid 3"
  shows "exactSettle solve (testRoom rnd uuid) (testStatus (shuffleCards allCards rnd))"
proof -
  define sc where "sc = shuffleCards allCards rnd"
  define room where "room = testRoom rnd uuid"
  define g where "g = testStatus sc"
  obtain h0 h1 h3 where h: "handsOf solve (players room) g = [Some h0, Some h1, None, Some h3]"
    using test_hands [of solve rnd uuid] by (simp add: room_def g_def sc_def)
  have ps: "players room = map (testPlayer sc uuid) [0, 1, 2, 3]"
    by (simp add: room_def testRoom_def sc_def)
  have pg: "pot g = 190" by (simp add: g_def testStatus_def)
  have r: "testRank solve rnd uuid 0 = h_rank h0" "testRank solve rnd uuid 1 = h_rank h1"
    "testRank solve rnd uuid 3 = h_rank h3"
    using h by (simp_all add: testRank_def room_def g_def sc_def numeral_3_eq_3)
  have sub: "filter (\<lambda>i. [Some h0, Some h1, None, Some h3] ! i \<noteq> None)
                [0 ..< length [Some h0, Some h1, None, Some h3]] = [0, 1, 3]"
    by (simp add: upt_conv_Cons)
  have e: "exactRoom room"
    by (simp add: room_def testRoom_def testPlayer_def testStatus_def exact_defs)
  note c = exact_cases [OF pg, where ha = h0 and hb = h1 and hc = h3 and sc = sc and uuid = uuid,
      folded ps]
  consider (1) "h_rank h0 < h_rank h3" "h_rank h1 < h_rank h3" "h_rank h0 < h_rank h1"
    | (2) "h_rank h0 < h_rank h3" "h_rank h1 < h_rank h3" "h_rank h1 < h_rank h0"
    | (3) "h_rank h0 < h_rank h3" "h_rank h1 < h_rank h3" "h_rank h0 = h_rank h1"
    | (4) "h_rank h0 = h_rank h3" "h_rank h1 < h_rank h3"
    | (5) "h_rank h0 < h_rank h3" "h_rank h1 = h_rank h3"
    | (6) "h_rank h0 = h_rank h3" "h_rank h1 = h_rank h3"
    using best unfolding r by linarith
  then have "exactLoop [Some h0, Some h1, None, Some h3] [0, 1, 3] (players room, g)"
    by cases (rule c, assumption+)+
  with e have "exactSettle solve room g"
    unfolding exactSettle_def h sub by simp
  then show ?thesis unfolding room_def g_def sc_def .
qed

text \<open>
  C2. The settlement of \<open>checkWinning\<close> on the configuration of \<open>test\<close> (bets
  20, 80, 50, 40; seat 2 folded; pot 190), whatever the cards and the solver, when no
  hand beats the hand of seat 3 (the seat that bet 40): seat 3 receives at most 160, the
  folded seat receives nothing, each balance grows by what the seat has won, the amounts
  won add up to exactly 190 and the pot ends at 0. When seat 3 alone holds the best hand
  it receives 140 (its 40, and 20, 40 and 40 from the others), and the remaining 50 go
  to the better hand of seats 0 and 1, or 25 to each when they tie.
\<close>

theorem settlement_test_configuration:
  fixes solve :: Solver and rnd :: "nat \<Rightarrow> nat" and uuid :: "nat \<Rightarrow> string"
  assumes best: "testRank solve rnd uuid 0 \<le> testRank solve rnd uuid 3"
                "testRank solve rnd uuid 1 \<le> testRank solve rnd uuid 3"
  shows "winOf (settle solve (testRoom rnd uuid) (testStatus (shuffleCards allCards rnd))) 3 \<le> 160
    \<and> winOf (settle solve (testRoom rnd uuid) (testStatus (shuffleCards allCards rnd))) 2 = 0
    \<and> map balance (players (settle solve (testRoom rnd uuid) (testStatus (shuffleCards allCards rnd))))
        = [1000 + winOf (settle solve (testRoom rnd uuid) (testStatus (shuffleCards allCards rnd))) 0,
           1000 + winOf (settle solve (testRoom rnd uuid) (testStatus (shuffleCards allCards rnd))) 1,
           1000,
           1000 + winOf (settle solve (testRoom rnd uuid) (testStatus (shuffleCards allCards rnd))) 3]
    \<and> winOf (settle solve (testRoom rnd uuid) (testStatus (shuffleCards allCards rnd))) 0
        + winOf (settle solve (testRoom rnd uuid) (testStatus (shuffleCards allCards rnd))) 1
        + winOf (settle solve (testRoom rnd uuid) (testStatus (shuffleCards allCards rnd))) 3 = 190
    \<and> map_option pot
          (gameStatus (settle solve (testRoom rnd uuid) (testStatus (shuffleCards allCards rnd))))
        = Some 0
    \<and> (testRank solve rnd uuid 0 < testRank solve rnd uuid 3
         \<and> testRank solve rnd uuid 1 < testRank solve rnd uuid 3 \<longrightarrow>
         winOf (settle solve (testRoom rnd uuid) (testStatus (shuffleCards allCards rnd))) 3 = 140
         \<and> (testRank solve rnd uuid 0 < testRank solve rnd uuid 1 \<longrightarrow>
              winOf (settle solve (testRoom rnd uuid) (testStatus (shuffleCards allCards rnd))) 1 = 50
              \<and> winOf (settle solve (testRoom rnd uuid) (testStatus (shuffleCards allCards rnd))) 0 = 0)
         \<and> (testRank solve rnd uuid 1 < testRank solve rnd uuid 0 \<longrightarrow>
              winOf (settle solve (testRoom rnd uuid) (testStatus (shuffleCards allCards rnd))) 0 = 50
              \<and> winOf (settle solve (testRoom rnd uuid) (testStatus (shuffleCards allCards rnd))) 1 = 0)
         \<and> (testRank solve rnd uuid 0 = testRank solve rnd uuid 1 \<longrightarrow>
              winOf (settle solve (testRoom rnd uuid) (testStatus (shuffleCards allCards rnd))) 0 = 25
              \<and> winOf (settle solve (testRoom rnd uuid) (testStatus (shuffleCards allCards rnd))) 1 = 25))"
proof -
  define sc where "sc = shuffleCards allCards rnd"
  define room where "room = testRoom rnd uuid"
  define g where "g = testStatus sc"
  obtain h0 h1 h3 where h: "handsOf solve (players room) g = [Some h0, Some h1, None, Some h3]"
    using test_hands [of solve rnd uuid] by (simp add: room_def g_def sc_def)
  have ps: "players room = map (testPlayer sc uuid) [0, 1, 2, 3]"
    by (simp add: room_def testRoom_def sc_def)
  have pg: "pot g = 190" by (simp add: g_def testStatus_def)
  have r: "testRank solve rnd uuid 0 = h_rank h0" "testRank solve rnd uuid 1 = h_rank h1"
    "testRank solve rnd uuid 3 = h_rank h3"
    using h by (simp_all add: testRank_def room_def g_def sc_def numeral_3_eq_3)
  note c = settle_cases [OF pg, where ha = h0 and hb = h1 and hc = h3 and sc = sc and uuid = uuid,
      folded ps]
  note o = settle_outcome [OF h]
  consider (1) "h_rank h0 < h_rank h3" "h_rank h1 < h_rank h3" "h_rank h0 < h_rank h1"
    | (2) "h_rank h0 < h_rank h3" "h_rank h1 < h_rank h3" "h_rank h1 < h_rank h0"
    | (3) "h_rank h0 < h_rank h3" "h_rank h1 < h_rank h3" "h_rank h0 = h_rank h1"
    | (4) "h_rank h0 = h_rank h3" "h_rank h1 < h_rank h3"
    | (5) "h_rank h0 < h_rank h3" "h_rank h1 = h_rank h3"
    | (6) "h_rank h0 = h_rank h3" "h_rank h1 = h_rank h3"
    using best unfolding r by linarith
  then have "winOf (settle solve room g) 3 \<le> 160
    \<and> winOf (settle solve room g) 2 = 0
    \<and> map balance (players (settle solve room g))
        = [1000 + winOf (settle solve room g) 0, 1000 + winOf (settle solve room g) 1, 1000,
           1000 + winOf (settle solve room g) 3]
    \<and> winOf (settle solve room g) 0 + winOf (settle solve room g) 1 + winOf (settle solve room g) 3 = 190
    \<and> map_option pot (gameStatus (settle solve room g)) = Some 0
    \<and> (h_rank h0 < h_rank h3 \<and> h_rank h1 < h_rank h3 \<longrightarrow>
         winOf (settle solve room g) 3 = 140
         \<and> (h_rank h0 < h_rank h1 \<longrightarrow>
              winOf (settle solve room g) 1 = 50 \<and> winOf (settle solve room g) 0 = 0)
         \<and> (h_rank h1 < h_rank h0 \<longrightarrow>
              winOf (settle solve room g) 0 = 50 \<and> winOf (settle solve room g) 1 = 0)
         \<and> (h_rank h0 = h_rank h1 \<longrightarrow>
              winOf (settle solve room g) 0 = 25 \<and> winOf (settle solve room g) 1 = 25))"
  proof cases
    case 1
    from o [OF c(1) [OF 1]] 1 show ?thesis by simp
  next
    case 2
    from o [OF c(2) [OF 2]] 2 show ?thesis by simp
  next
    case 3
    from o [OF c(3) [OF 3]] 3 show ?thesis by simp
  next
    case 4
    from o [OF c(4) [OF 4]] 4 show ?thesis by simp
  next
    case 5
    from o [OF c(5) [OF 5]] 5 show ?thesis by simp
  next
    case 6
    from o [OF c(6) [OF 6]] 6 show ?thesis by simp
  qed
  then show ?thesis unfolding r room_def g_def sc_def .
qed

lemma allCards_slices:
  "take 2 allCards = [0, 1]"
  "take 2 (drop 2 allCards) = [2, 3]"
  "take 2 (drop 6 allCards) = [6, 7]"
  "drop (length allCards - 5) allCards = [47, 48, 49, 50, 51]"
  by (simp_all add: allCards_def)

lemma test_strings:
  "map cardString [Some 0, Some 1, Some 47, Some 48, Some 49, Some 50, Some 51]
     = [''2d'', ''3d'', ''Ts'', ''Js'', ''Qs'', ''Ks'', ''As'']"
  "map cardString [Some 2, Some 3, Some 47, Some 48, Some 49, Some 50, Some 51]
     = [''4d'', ''5d'', ''Ts'', ''Js'', ''Qs'', ''Ks'', ''As'']"
  "map cardString [Some 6, Some 7, Some 47, Some 48, Some 49, Some 50, Some 51]
     = [''8d'', ''9d'', ''Ts'', ''Js'', ''Qs'', ''Ks'', ''As'']"
  by (simp_all add: cardString_def)


lemma eight_ranks:
  "h_rank (eightSolver [''2d'', ''3d'', ''Ts'', ''Js'', ''Qs'', ''Ks'', ''As'']) = 1"
  "h_rank (eightSolver [''4d'', ''5d'', ''Ts'', ''Js'', ''Qs'', ''Ks'', ''As'']) = 1"
  "h_rank (eightSolver [''8d'', ''9d'', ''Ts'', ''Js'', ''Qs'', ''Ks'', ''As'']) = 9"
  by (simp_all add: eightSolver_def)

lemma test_hands0:
  "handsOf solve (players (testRoom (\<lambda>k. 0) uuid)) (testStatus allCards) =
     [Some (solve (map cardString [Some 0, Some 1, Some 47, Some 48, Some 49, Some 50, Some 51])),
      Some (solve (map cardString [Some 2, Some 3, Some 47, Some 48, Some 49, Some 50, Some 51])),
      None,
      Some (solve (map cardString [Some 6, Some 7, Some 47, Some 48, Some 49, Some 50, Some 51]))]"
  by (simp add: handsOf_def testRoom_def testPlayer_def testStatus_def shuffleCards_zero
      allCards_slices del: map_map)

lemma test_ranks:
  "testRank eightSolver (\<lambda>k. 0) (\<lambda>k. ''u'') 0 = 1"
  "testRank eightSolver (\<lambda>k. 0) (\<lambda>k. ''u'') 1 = 1"
  "testRank eightSolver (\<lambda>k. 0) (\<lambda>k. ''u'') 3 = 9"
  unfolding testRank_def shuffleCards_zero test_hands0 test_strings
  by (simp_all add: eight_ranks numeral_3_eq_3)


theorem settlement_test_configuration_witness:
  "testRank eightSolver (\<lambda>k. 0) (\<lambda>k. ''u'') 0 \<le> testRank eightSolver (\<lambda>k. 0) (\<lambda>k. ''u'') 3
   \<and> testRank eightSolver (\<lambda>k. 0) (\<lambda>k. ''u'') 1 \<le> testRank eightSolver (\<lambda>k. 0) (\<lambda>k. ''u'') 3
   \<and> winOf (settle eightSolver (testRoom (\<lambda>k. 0) (\<lambda>k. ''u'')) (testStatus (shuffleCards allCards (\<lambda>k. 0)))) 3 = 140
   \<and> map_option pot (gameStatus (settle eightSolver (testRoom (\<lambda>k. 0) (\<lambda>k. ''u''))
         (testStatus (shuffleCards allCards (\<lambda>k. 0))))) = Some 0"
proof -
  have a: "testRank eightSolver (\<lambda>k. 0) (\<lambda>k. ''u'') 0 \<le> testRank eightSolver (\<lambda>k. 0) (\<lambda>k. ''u'') 3"
    and b: "testRank eightSolver (\<lambda>k. 0) (\<lambda>k. ''u'') 1 \<le> testRank eightSolver (\<lambda>k. 0) (\<lambda>k. ''u'') 3"
    and c: "testRank eightSolver (\<lambda>k. 0) (\<lambda>k. ''u'') 0 < testRank eightSolver (\<lambda>k. 0) (\<lambda>k. ''u'') 3
          \<and> testRank eightSolver (\<lambda>k. 0) (\<lambda>k. ''u'') 1 < testRank eightSolver (\<lambda>k. 0) (\<lambda>k. ''u'') 3"
    unfolding test_ranks by simp_all
  note t = settlement_test_configuration [OF a b]
  note p = t [THEN conjunct2, THEN conjunct2, THEN conjunct2, THEN conjunct2, THEN conjunct1]
  note w = t [THEN conjunct2, THEN conjunct2, THEN conjunct2, THEN conjunct2, THEN conjunct2,
              THEN mp, OF c, THEN conjunct1]
  show ?thesis by (intro conjI a b p w)
qed

section \<open>A rejected raise\<close>

text \<open>
  C3. A RAISE that the seat in turn cannot pay is rejected: the call returns before any
  chip moves and nothing is emitted. But the status of the seat has already been
  overwritten when the balance is tested: in \<open>raiseGame\<close>, seat 0 holds 5 chips and
  raises by 10 over a bet of 10; the call returns with no effect other than the status of
  seat 0, which was NONE and is RAISE afterwards.
\<close>

theorem raise_rejected_status_changed:
  "(\<forall>solve now. updateGameStatus (raiseGame NONE) solve now (Some ''s1'') ''room'' RAISE (Some (Whole 10))
       = Some (Inr (raiseGame RAISE, [])))
   \<and> raiseGame RAISE \<noteq> raiseGame NONE"
proof -
  have a: "updateGameStatus (raiseGame NONE) solve now (Some ''s1'') ''room'' RAISE (Some (Whole 10))
       = Some (Inr (raiseGame RAISE, []))" for solve now
    by (simp add: updateGameStatus_def raiseGame_def raiseRoom_def room_defs getRoom_def atIndex_def
        getIndex_def bindR_def applyAction_def actRaise_def payIn_def putRoom_def finishAction_def
        exact_defs)
  have b: "raiseGame RAISE \<noteq> raiseGame NONE"
    by (simp add: raiseGame_def raiseRoom_def room_defs)
  from a b show ?thesis by blast
qed

theorem raise_rejected_status_changed_witness:
  "updateGameStatus (raiseGame NONE) eightSolver 0 (Some ''s1'') ''room'' RAISE (Some (Whole 10))
     = Some (Inr (raiseGame RAISE, []))
   \<and> map status (map the (map playerStatus (players (raiseRoom NONE)))) = [NONE, NONE]
   \<and> map status (map the (map playerStatus (players (raiseRoom RAISE)))) = [RAISE, NONE]"
proof -
  from raise_rejected_status_changed
  have "updateGameStatus (raiseGame NONE) eightSolver 0 (Some ''s1'') ''room'' RAISE (Some (Whole 10))
          = Some (Inr (raiseGame RAISE, []))" by blast
  then show ?thesis by (simp add: raiseRoom_def room_defs)
qed
section \<open>What an action keeps\<close>












lemma keeps_refl [simp]: "keeps room room"
  by (simp add: keeps_def sameChips_def sameCards_def)





lemma balance_foldBets [simp]: "balance (foldBets p) = balance p"
  by (simp add: foldBets_def split: option.splits)

lemma balance_o_foldBets [simp]: "balance \<circ> foldBets = balance"
  by (rule ext) simp

lemma sum_balance_foldBets [simp]:
  "sum_list (map balance (map foldBets ps)) = sum_list (map balance ps)"
  by (induction ps) simp_all


lemma deck_foldBets [simp]:
  "map_option deck (playerStatus (foldBets p)) = map_option deck (playerStatus p)"
  by (simp add: foldBets_def split: option.splits)

















lemma continue_result:
  assumes "(case x of (room2, flag, es) \<Rightarrow> Some (Inr (room2, Continue flag, es)))
           = Some (Inr (room', flow, es'))"
  shows "\<exists>flag. x = (room', flag, es')"
  using assms by (cases x) auto
























section \<open>The CHECK action\<close>







section \<open>The board and the hole cards\<close>





















end
